theory Spec2Isabelle
  imports Complex_Main
begin

section \<open>The Market-Pulse request handler (src/index.js)\<close>

text \<open>
  The service answers \<^verbatim>\<open>GET /market-pulse/:ticker\<close>. The handler uppercases the
  ticker, checks it against a regular expression, consults a process-wide \<^verbatim>\<open>Map\<close>
  used as a cache and, on a miss, calls three clients: \<^verbatim>\<open>getHistoricalData\<close> and
  \<^verbatim>\<open>getNewsData\<close> (both started before either is awaited, joined by
  \<^verbatim>\<open>Promise.all\<close>) and then \<^verbatim>\<open>getGeminiAnalysis\<close>.

  The embedding follows the source function by function. What the outside world does
  (the environment variables, what each HTTP request comes back with, the two clock
  readings) is the \<open>env\<close> of one request; the cache is passed in and returned; every
  \<^verbatim>\<open>throw\<close> and every rejected promise is the \<open>Inl\<close> of a sum; the clients log the
  upstream activity they cause as a list of events. One request is modelled running
  alone, from its first line to its response.
\<close>

subsection \<open>JavaScript values\<close>

text \<open>
  Whatever \<^verbatim>\<open>axios\<close> puts in \<^verbatim>\<open>response.data\<close> and whatever \<^verbatim>\<open>JSON.parse\<close> returns is
  JSON data; reading a property that is not there gives \<^verbatim>\<open>undefined\<close>. A number is the
  exact value of a finite double. An object is the list of its own properties, the
  first binding of a key being the one that counts.
\<close>

datatype jsval =
    Undefined
  | Null
  | Bool bool
  | Num rat
  | Str string
  | Arr "jsval list"
  | Obj "(string \<times> jsval) list"

text \<open>
  What can be thrown: \<^verbatim>\<open>new Error(message)\<close>, the engine's \<^verbatim>\<open>TypeError\<close> and
  \<^verbatim>\<open>SyntaxError\<close> (their message is the engine's own text and is left open), and the
  error \<^verbatim>\<open>axios\<close> rejects with: its \<^verbatim>\<open>message\<close> and, when the server did answer (a
  status outside 2xx), the \<^verbatim>\<open>response.data\<close> of that answer.
\<close>

datatype exn =
    Error string
  | TypeError
  | SyntaxError
  | Axios_Error string "jsval option"

text \<open>What a request made with \<^verbatim>\<open>axios\<close> comes back with.\<close>

datatype axios_outcome =
    Resolved jsval
  | Rejected string "jsval option"

text \<open>Sequencing of steps that may throw: the first throw is the result.\<close>

definition and_then :: "exn + 'a \<Rightarrow> ('a \<Rightarrow> exn + 'b) \<Rightarrow> exn + 'b" where
  "and_then x f = (case x of Inl e \<Rightarrow> Inl e | Inr v \<Rightarrow> f v)"

text \<open>The values that count as true in \<^verbatim>\<open>!x\<close>, \<^verbatim>\<open>x && y\<close>, \<^verbatim>\<open>x || y\<close> and \<^verbatim>\<open>x ? y : z\<close>.\<close>

fun truthy :: "jsval \<Rightarrow> bool" where
  "truthy Undefined = False"
| "truthy Null = False"
| "truthy (Bool b) = b"
| "truthy (Num r) = (r \<noteq> 0)"
| "truthy (Str s) = (s \<noteq> [])"
| "truthy (Arr xs) = True"
| "truthy (Obj kvs) = True"

text \<open>
  The property read \<^verbatim>\<open>v.k\<close>, for the names the source reads (\<^verbatim>\<open>historical\<close>,
  \<^verbatim>\<open>candidates\<close>, \<^verbatim>\<open>length\<close>, \<^verbatim>\<open>content\<close>, \<^verbatim>\<open>parts\<close>, \<^verbatim>\<open>text\<close>, \<^verbatim>\<open>date\<close>, \<^verbatim>\<open>close\<close>,
  \<^verbatim>\<open>volume\<close>, \<^verbatim>\<open>pulse\<close>, \<^verbatim>\<open>reason\<close>, \<^verbatim>\<open>confidence\<close>, \<^verbatim>\<open>error\<close>): none of them is
  inherited from a prototype, except \<^verbatim>\<open>length\<close> on arrays and strings. Reading a
  property of \<^verbatim>\<open>undefined\<close> or \<^verbatim>\<open>null\<close> throws a \<^verbatim>\<open>TypeError\<close>.
\<close>

fun member :: "jsval \<Rightarrow> string \<Rightarrow> exn + jsval" where
  "member Undefined k = Inl TypeError"
| "member Null k = Inl TypeError"
| "member (Bool b) k = Inr Undefined"
| "member (Num r) k = Inr Undefined"
| "member (Str s) k = Inr (if k = ''length'' then Num (of_nat (length s)) else Undefined)"
| "member (Arr xs) k = Inr (if k = ''length'' then Num (of_nat (length xs)) else Undefined)"
| "member (Obj kvs) k = Inr (case map_of kvs k of None \<Rightarrow> Undefined | Some v \<Rightarrow> v)"

text \<open>The element read \<^verbatim>\<open>v[0]\<close>.\<close>

fun index0 :: "jsval \<Rightarrow> exn + jsval" where
  "index0 Undefined = Inl TypeError"
| "index0 Null = Inl TypeError"
| "index0 (Bool b) = Inr Undefined"
| "index0 (Num r) = Inr Undefined"
| "index0 (Str s) = Inr (case s of [] \<Rightarrow> Undefined | c # cs \<Rightarrow> Str [c])"
| "index0 (Arr xs) = Inr (case xs of [] \<Rightarrow> Undefined | x # ys \<Rightarrow> x)"
| "index0 (Obj kvs) = Inr (case map_of kvs ''0'' of None \<Rightarrow> Undefined | Some v \<Rightarrow> v)"

text \<open>
  \<^verbatim>\<open>v.slice(0, 20)\<close>: the first 20 elements of an array, the first 20 characters of a
  string; on anything else \<^verbatim>\<open>slice\<close> is not a function and the call throws.
\<close>

fun slice_0_20 :: "jsval \<Rightarrow> exn + jsval" where
  "slice_0_20 (Arr xs) = Inr (Arr (take 20 xs))"
| "slice_0_20 (Str s) = Inr (Str (take 20 s))"
| "slice_0_20 v = Inl TypeError"

text \<open>\<^verbatim>\<open>xs.map(f)\<close> for an \<open>f\<close> that may throw: the first throw ends the loop.\<close>

fun map_throwing :: "('a \<Rightarrow> exn + 'b) \<Rightarrow> 'a list \<Rightarrow> exn + 'b list" where
  "map_throwing f [] = Inr []"
| "map_throwing f (x # xs) =
     and_then (f x) (\<lambda>y. and_then (map_throwing f xs) (\<lambda>ys. Inr (y # ys)))"

subsection \<open>The environment of one request\<close>

text \<open>
  The body \<^verbatim>\<open>getGeminiAnalysis\<close> posts is a fixed template around the ticker and the
  recent data; these two are what the answer of the service may depend on.
\<close>

datatype prompt = Prompt string "jsval list"

text \<open>
  \<^item> \<open>FMP_API_KEY\<close>, \<open>GEMINI_API_KEY\<close>: \<^verbatim>\<open>process.env\<close>, a string or \<^verbatim>\<open>undefined\<close>;
  \<^item> \<open>axios_get\<close>, \<open>axios_post\<close>: what the request to a URL comes back with;
  \<^item> \<open>Date_now\<close>: the reading of \<^verbatim>\<open>Date.now()\<close> on the handler's second line;
  \<^item> \<open>new_Date\<close>: the reading of \<^verbatim>\<open>new Date()\<close> when the result is assembled, in the
    synchronous block that also writes the cache; \<open>toISOString\<close> renders it;
  \<^item> \<open>JSON_parse\<close>: \<^verbatim>\<open>JSON.parse(v)\<close>, \<open>None\<close> when it throws its \<^verbatim>\<open>SyntaxError\<close>;
  \<^item> \<open>parseFloat_toFixed\<close>: \<^verbatim>\<open>parseFloat(v).toFixed(2)\<close>, floating-point formatting;
  \<^item> \<open>coerced_gt_zero\<close>: \<^verbatim>\<open>v > 0\<close> for a string, an array or an object \<open>v\<close>, which
    goes through the conversion of \<open>v\<close> to a number;
  \<^item> \<open>unicode_toUpperCase\<close>: \<^verbatim>\<open>s.toUpperCase()\<close> for a string \<open>s\<close> that has a character
    beyond ASCII, which goes through the case mappings of Unicode.
  The last five are functions of the language, the same in every request; the
  theorems hold whatever they compute.
\<close>

record env =
  FMP_API_KEY :: "string option"
  GEMINI_API_KEY :: "string option"
  axios_get :: "string \<Rightarrow> axios_outcome"
  axios_post :: "string \<Rightarrow> prompt \<Rightarrow> axios_outcome"
  Date_now :: int
  new_Date :: int
  toISOString :: "int \<Rightarrow> string"
  JSON_parse :: "jsval \<Rightarrow> jsval option"
  parseFloat_toFixed :: "jsval \<Rightarrow> exn + string"
  coerced_gt_zero :: "jsval \<Rightarrow> exn + bool"
  unicode_toUpperCase :: "string \<Rightarrow> string"

text \<open>\<^verbatim>\<open>!KEY\<close> is true for \<^verbatim>\<open>undefined\<close> and for the empty string.\<close>

fun configured :: "string option \<Rightarrow> bool" where
  "configured None = False"
| "configured (Some k) = (k \<noteq> [])"

text \<open>\<^verbatim>\<open>v > 0\<close>.\<close>

fun gt_zero :: "env \<Rightarrow> jsval \<Rightarrow> exn + bool" where
  "gt_zero env Undefined = Inr False"
| "gt_zero env Null = Inr False"
| "gt_zero env (Bool b) = Inr b"
| "gt_zero env (Num r) = Inr (0 < r)"
| "gt_zero env v = coerced_gt_zero env v"

text \<open>
  Upstream activity, in the order it happens: a client function is entered, an HTTP
  request leaves the process.
\<close>

datatype event =
    Call_Historical string
  | Call_News string
  | Call_Gemini string
  | Http_Get string
  | Http_Post string

subsection \<open>getHistoricalData\<close>

definition historical_url :: "string \<Rightarrow> string \<Rightarrow> string" where
  "historical_url t k =
     ''https://financialmodelingprep.com/api/v3/historical-price-full/'' @ t @ ''?apikey='' @ k"

definition no_time_series :: "string \<Rightarrow> exn" where
  "no_time_series t = Error (''No time series data found for \"'' @ t @ ''\".'')"

text \<open>
  The body of the \<^verbatim>\<open>try\<close>; the \<^verbatim>\<open>catch\<close> logs and rethrows the same error.
\<close>

definition historical_of_outcome :: "string \<Rightarrow> axios_outcome \<Rightarrow> exn + jsval" where
  "historical_of_outcome t out =
     (case out of
        Rejected m r \<Rightarrow> Inl (Axios_Error m r)
      | Resolved d \<Rightarrow>
          if \<not> truthy d then Inl (no_time_series t)
          else and_then (member d ''historical'')
                 (\<lambda>h. if \<not> truthy h then Inl (no_time_series t) else Inr h))"

definition getHistoricalData :: "env \<Rightarrow> string \<Rightarrow> event list \<times> (exn + jsval)" where
  "getHistoricalData env t =
     (if \<not> configured (FMP_API_KEY env)
      then ([Call_Historical t], Inl (Error ''FMP API key not configured.''))
      else let url = historical_url t (the (FMP_API_KEY env))
           in ([Call_Historical t, Http_Get url], historical_of_outcome t (axios_get env url)))"

subsection \<open>getNewsData\<close>

definition news_url :: "string \<Rightarrow> string \<Rightarrow> string" where
  "news_url t k =
     ''https://financialmodelingprep.com/api/v3/stock_news?tickers='' @ t
       @ ''&limit=5&apikey='' @ k"

text \<open>\<^verbatim>\<open>return response.data || []\<close> in the \<^verbatim>\<open>try\<close>, \<^verbatim>\<open>return []\<close> in the \<^verbatim>\<open>catch\<close>.\<close>

definition news_of_outcome :: "axios_outcome \<Rightarrow> jsval" where
  "news_of_outcome out =
     (case out of
        Rejected m r \<Rightarrow> Arr []
      | Resolved d \<Rightarrow> if truthy d then d else Arr [])"

definition getNewsData :: "env \<Rightarrow> string \<Rightarrow> event list \<times> (exn + jsval)" where
  "getNewsData env t =
     (if \<not> configured (FMP_API_KEY env)
      then ([Call_News t], Inl (Error ''FMP API key not configured.''))
      else let url = news_url t (the (FMP_API_KEY env))
           in ([Call_News t, Http_Get url], Inr (news_of_outcome (axios_get env url))))"

subsection \<open>getGeminiAnalysis\<close>

definition gemini_url :: "string \<Rightarrow> string" where
  "gemini_url k =
     ''https://generativelanguage.googleapis.com/v1beta/models/gemini-1.5-flash-latest:generateContent?key=''
       @ k"

definition gemini_failed :: exn where
  "gemini_failed = Error ''Failed to get analysis from Gemini API.''"

text \<open>\<^verbatim>\<open>day => ({date: day.date, close: day.close, volume: day.volume})\<close>\<close>

definition day_tuple :: "jsval \<Rightarrow> exn + jsval" where
  "day_tuple day =
     and_then (member day ''date'') (\<lambda>d.
     and_then (member day ''close'') (\<lambda>c.
     and_then (member day ''volume'') (\<lambda>v.
     Inr (Obj [(''date'', d), (''close'', c), (''volume'', v)]))))"

text \<open>
  \<^verbatim>\<open>historicalData.slice(0, 20).map(...)\<close>: only an array has both \<^verbatim>\<open>slice\<close> and
  \<^verbatim>\<open>map\<close>. This line is outside the \<^verbatim>\<open>try\<close>.
\<close>

fun recentData :: "jsval \<Rightarrow> exn + jsval list" where
  "recentData (Arr xs) = map_throwing day_tuple (take 20 xs)"
| "recentData v = Inl TypeError"

text \<open>
  \<^verbatim>\<open>response.data.candidates && response.data.candidates.length > 0\<close>
\<close>

definition usable_candidates :: "env \<Rightarrow> jsval \<Rightarrow> exn + bool" where
  "usable_candidates env d =
     and_then (member d ''candidates'') (\<lambda>cands.
     if truthy cands then and_then (member cands ''length'') (gt_zero env) else Inr False)"

text \<open>\<^verbatim>\<open>response.data.candidates[0].content.parts[0].text\<close>\<close>

definition candidate_text :: "jsval \<Rightarrow> exn + jsval" where
  "candidate_text d =
     and_then (member d ''candidates'') (\<lambda>cands.
     and_then (index0 cands) (\<lambda>c0.
     and_then (member c0 ''content'') (\<lambda>content.
     and_then (member content ''parts'') (\<lambda>parts.
     and_then (index0 parts) (\<lambda>p0.
     member p0 ''text'')))))"

text \<open>The body of the \<^verbatim>\<open>try\<close>, from the outcome of \<^verbatim>\<open>axios.post\<close>.\<close>

definition gemini_try :: "env \<Rightarrow> axios_outcome \<Rightarrow> exn + jsval" where
  "gemini_try env out =
     (case out of
        Rejected m r \<Rightarrow> Inl (Axios_Error m r)
      | Resolved d \<Rightarrow>
          and_then (usable_candidates env d) (\<lambda>usable.
          if usable
          then and_then (candidate_text d) (\<lambda>txt.
               case JSON_parse env txt of
                 None \<Rightarrow> Inl SyntaxError
               | Some a \<Rightarrow> Inr a)
          else Inl (Error ''Invalid response structure from Gemini API.'')))"

text \<open>
  The \<^verbatim>\<open>catch\<close>: it evaluates \<^verbatim>\<open>error.response ? JSON.stringify(error.response.data.error)
  : error.message\<close> for the log, then throws the fixed error. Only the error of
  \<^verbatim>\<open>axios\<close> has a \<^verbatim>\<open>response\<close>; reading \<^verbatim>\<open>.error\<close> of its data throws when the data
  is \<^verbatim>\<open>null\<close>.
\<close>

fun gemini_catch :: "exn \<Rightarrow> exn" where
  "gemini_catch (Axios_Error m (Some d)) =
     (case member d ''error'' of Inl e \<Rightarrow> e | Inr v \<Rightarrow> gemini_failed)"
| "gemini_catch e = gemini_failed"

definition getGeminiAnalysis :: "env \<Rightarrow> string \<Rightarrow> jsval \<Rightarrow> event list \<times> (exn + jsval)" where
  "getGeminiAnalysis env t historicalData =
     (if \<not> configured (GEMINI_API_KEY env)
      then ([Call_Gemini t], Inl (Error ''Gemini API key not configured.''))
      else case recentData historicalData of
             Inl e \<Rightarrow> ([Call_Gemini t], Inl e)
           | Inr recent \<Rightarrow>
               let url = gemini_url (the (GEMINI_API_KEY env))
               in ([Call_Gemini t, Http_Post url],
                   case gemini_try env (axios_post env url (Prompt t recent)) of
                     Inl e \<Rightarrow> Inl (gemini_catch e)
                   | Inr a \<Rightarrow> Inr a))"

subsection \<open>The handler of /market-pulse/:ticker\<close>

text \<open>
  \<^verbatim>\<open>req.params.ticker.toUpperCase()\<close>. A string is the list of the bytes of its UTF-8
  encoding, so a character of ASCII is one byte below 128 and any other character is
  a sequence of bytes from 128 on. On a string of ASCII characters \<^verbatim>\<open>toUpperCase\<close>
  maps the letters \<^verbatim>\<open>a\<close> to \<^verbatim>\<open>z\<close> to \<^verbatim>\<open>A\<close> to \<^verbatim>\<open>Z\<close> and leaves the rest; on any other
  string it is the case mapping of Unicode, which can change the length (the sharp s
  becomes \<^verbatim>\<open>SS\<close>) and can produce characters of ASCII from others.
\<close>

definition is_ascii :: "char \<Rightarrow> bool" where
  "is_ascii c = (of_char c < (128::nat))"

definition upper_char :: "char \<Rightarrow> char" where
  "upper_char c =
     (case map_of (zip ''abcdefghijklmnopqrstuvwxyz'' ''ABCDEFGHIJKLMNOPQRSTUVWXYZ'') c of
        None \<Rightarrow> c
      | Some u \<Rightarrow> u)"

definition toUpperCase :: "env \<Rightarrow> string \<Rightarrow> string" where
  "toUpperCase env s =
     (if list_all is_ascii s then map upper_char s else unicode_toUpperCase env s)"

text \<open>
  \<^verbatim>\<open>/^[A-Z0-9.-]{1,10}$/.test(ticker)\<close>: between 1 and 10 characters, each in one of the
  ranges \<^verbatim>\<open>A-Z\<close> (codes 65 to 90) and \<^verbatim>\<open>0-9\<close> (codes 48 to 57) or one of \<^verbatim>\<open>.\<close> and \<^verbatim>\<open>-\<close>.
  A byte from 128 on is in none of them, and a string of ASCII characters has as many
  bytes as characters.
\<close>

definition ticker_char :: "char \<Rightarrow> bool" where
  "ticker_char c =
     (((65::nat) \<le> of_char c \<and> of_char c \<le> (90::nat))
      \<or> ((48::nat) \<le> of_char c \<and> of_char c \<le> (57::nat))
      \<or> c = CHR ''.'' \<or> c = CHR ''-'')"

definition ticker_regex :: "string \<Rightarrow> bool" where
  "ticker_regex t = (1 \<le> length t \<and> length t \<le> 10 \<and> list_all ticker_char t)"

text \<open>The object built by the handler, stored in the cache and sent as the body.\<close>

record result =
  ticker :: string
  pulse :: jsval
  reason :: jsval
  confidence :: jsval
  lastPrice :: string
  history :: jsval
  news :: jsval
  timestamp :: string

record cache_entry =
  entry_timestamp :: int
  entry_data :: result

type_synonym cache = "string \<rightharpoonup> cache_entry"

text \<open>
  The response: \<^verbatim>\<open>res.json(result)\<close>, \<^verbatim>\<open>res.status(400).json({error: text})\<close>, and
  \<^verbatim>\<open>res.status(500).json({error: error.message})\<close> for the error caught.
\<close>

datatype response =
    OK_200 result
  | Bad_Request_400 string
  | Server_Error_500 exn

text \<open>
  \<^verbatim>\<open>cache.has(ticker) && (now - cache.get(ticker).timestamp < 600000)\<close>
\<close>

definition cache_hit :: "cache \<Rightarrow> string \<Rightarrow> int \<Rightarrow> bool" where
  "cache_hit c t now =
     (case c t of None \<Rightarrow> False | Some e \<Rightarrow> now - entry_timestamp e < 600000)"

text \<open>
  \<^verbatim>\<open>Promise.all\<close> of the two clients. Both have been called, so both logs are kept. It
  rejects with the rejection that comes first: \<^verbatim>\<open>getNewsData\<close> only rejects on the
  missing key, before any request, and then \<^verbatim>\<open>getHistoricalData\<close>, called first, has
  rejected the same way.
\<close>

definition Promise_all :: "exn + 'a \<Rightarrow> exn + 'b \<Rightarrow> exn + ('a \<times> 'b)" where
  "Promise_all p q =
     (case p of
        Inl e \<Rightarrow> Inl e
      | Inr a \<Rightarrow> (case q of Inl e \<Rightarrow> Inl e | Inr b \<Rightarrow> Inr (a, b)))"

text \<open>The object literal, its properties evaluated in the order they are written.\<close>

definition assemble :: "env \<Rightarrow> string \<Rightarrow> jsval \<Rightarrow> jsval \<Rightarrow> jsval \<Rightarrow> exn + result" where
  "assemble env t historicalData newsData analysis =
     and_then (member analysis ''pulse'') (\<lambda>p.
     and_then (member analysis ''reason'') (\<lambda>r.
     and_then (member analysis ''confidence'') (\<lambda>c.
     and_then (index0 historicalData) (\<lambda>first.
     and_then (member first ''close'') (\<lambda>cl.
     and_then (parseFloat_toFixed env cl) (\<lambda>price.
     and_then (slice_0_20 historicalData) (\<lambda>recent.
     Inr \<lparr>ticker = t, pulse = p, reason = r, confidence = c, lastPrice = price,
          history = recent, news = newsData,
          timestamp = toISOString env (new_Date env)\<rparr>)))))))"

text \<open>The \<^verbatim>\<open>try\<close> block of the handler up to the result, with the events it causes.\<close>

definition fetch_and_assemble :: "env \<Rightarrow> string \<Rightarrow> event list \<times> (exn + result)" where
  "fetch_and_assemble env t =
     (let (ev_h, hist) = getHistoricalData env t;
          (ev_n, nws) = getNewsData env t
      in case Promise_all hist nws of
           Inl e \<Rightarrow> (ev_h @ ev_n, Inl e)
         | Inr (historicalData, newsData) \<Rightarrow>
             let (ev_g, an) = getGeminiAnalysis env t historicalData
             in (ev_h @ ev_n @ ev_g,
                 and_then an (assemble env t historicalData newsData)))"

text \<open>
  The handler after the validation: cache lookup, and on a miss the fetch, the write
  \<^verbatim>\<open>cache.set(ticker, { timestamp: now, data: result })\<close> and the response, or the
  \<^verbatim>\<open>catch\<close>. It returns the response, the cache afterwards and the upstream events.
\<close>

definition serve_ticker :: "env \<Rightarrow> cache \<Rightarrow> string \<Rightarrow> response \<times> cache \<times> event list" where
  "serve_ticker env c t =
     (let now = Date_now env
      in if cache_hit c t now then (OK_200 (entry_data (the (c t))), c, [])
         else case fetch_and_assemble env t of
                (evs, Inl e) \<Rightarrow> (Server_Error_500 e, c, evs)
              | (evs, Inr r) \<Rightarrow>
                  (OK_200 r, c(t \<mapsto> \<lparr>entry_timestamp = now, entry_data = r\<rparr>), evs))"

definition market_pulse :: "env \<Rightarrow> cache \<Rightarrow> string \<Rightarrow> response \<times> cache \<times> event list" where
  "market_pulse env c raw =
     (let t = toUpperCase env raw
      in if \<not> ticker_regex t then (Bad_Request_400 ''Invalid ticker format.'', c, [])
         else serve_ticker env c t)"

subsection \<open>Concrete requests\<close>

text \<open>
  A request for \<^verbatim>\<open>AAPL\<close> with both keys set, given what the three upstream requests
  come back with. The handler starts at 15:26:40.000 UTC on 3 May 2024 and assembles
  its result 2.5 seconds later. The functions of the language are given on the values
  these requests use, where they agree with JavaScript, and arbitrarily elsewhere.
\<close>

definition bullish_text :: string where
  "bullish_text =
     ''{\"pulse\": \"Bullish\", \"reason\": \"Upward momentum on high volume.\", \"confidence\": \"High\"}''"

definition bullish :: jsval where
  "bullish =
     Obj [(''pulse'', Str ''Bullish''), (''reason'', Str ''Upward momentum on high volume.''),
          (''confidence'', Str ''High'')]"

definition sideways_text :: string where
  "sideways_text =
     ''{\"pulse\": \"Sideways\", \"reason\": \"No clear trend.\", \"confidence\": \"Very High\"}''"

definition sideways :: jsval where
  "sideways =
     Obj [(''pulse'', Str ''Sideways''), (''reason'', Str ''No clear trend.''),
          (''confidence'', Str ''Very High'')]"

definition demo_JSON_parse :: "jsval \<Rightarrow> jsval option" where
  "demo_JSON_parse v =
     (if v = Str bullish_text then Some bullish
      else if v = Str sideways_text then Some sideways
      else if v = Str ''{}'' then Some (Obj [])
      else None)"

definition demo_parseFloat_toFixed :: "jsval \<Rightarrow> exn + string" where
  "demo_parseFloat_toFixed v = (if v = Num (367 / 2) then Inr ''183.50'' else Inr ''NaN'')"

text \<open>The sharp s, U+00DF, is the bytes C3 9F; its upper case is \<^verbatim>\<open>SS\<close>.\<close>

definition sharp_s :: string where
  "sharp_s = [CHR 0xC3, CHR 0x9F]"

definition demo_unicode_toUpperCase :: "string \<Rightarrow> string" where
  "demo_unicode_toUpperCase s = (if s = sharp_s then ''SS'' else s)"

definition demo_env :: "axios_outcome \<Rightarrow> axios_outcome \<Rightarrow> axios_outcome \<Rightarrow> env" where
  "demo_env historical_outcome news_outcome gemini_outcome =
     \<lparr>FMP_API_KEY = Some ''fmp-key'',
      GEMINI_API_KEY = Some ''gemini-key'',
      axios_get = (\<lambda>url. if url = news_url ''AAPL'' ''fmp-key'' then news_outcome
                         else historical_outcome),
      axios_post = (\<lambda>url p. gemini_outcome),
      Date_now = 1714750000000,
      new_Date = 1714750002500,
      toISOString = (\<lambda>ms. ''2024-05-03T15:26:42.500Z''),
      JSON_parse = demo_JSON_parse,
      parseFloat_toFixed = demo_parseFloat_toFixed,
      coerced_gt_zero = (\<lambda>v. Inr False),
      unicode_toUpperCase = demo_unicode_toUpperCase\<rparr>"

definition day_1 :: jsval where
  "day_1 = Obj [(''date'', Str ''2024-05-03''), (''close'', Num (367 / 2)), (''volume'', Num 163224100)]"

definition day_2 :: jsval where
  "day_2 = Obj [(''date'', Str ''2024-05-02''), (''close'', Num 173), (''volume'', Num 94214900)]"

definition historical_payload :: "jsval list \<Rightarrow> axios_outcome" where
  "historical_payload days = Resolved (Obj [(''symbol'', Str ''AAPL''), (''historical'', Arr days)])"

definition headline :: "string \<Rightarrow> jsval" where
  "headline title =
     Obj [(''title'', Str title), (''text'', Str ''...''), (''url'', Str ''https://example.com/'')]"

definition gemini_payload :: "string \<Rightarrow> axios_outcome" where
  "gemini_payload txt =
     Resolved (Obj [(''candidates'',
       Arr [Obj [(''content'', Obj [(''parts'', Arr [Obj [(''text'', Str txt)]])])]])])"

definition demo_result :: "jsval \<Rightarrow> result" where
  "demo_result news_items =
     \<lparr>ticker = ''AAPL'', pulse = Str ''Bullish'',
      reason = Str ''Upward momentum on high volume.'', confidence = Str ''High'',
      lastPrice = ''183.50'', history = Arr [day_1, day_2], news = news_items,
      timestamp = ''2024-05-03T15:26:42.500Z''\<rparr>"

definition cached :: "int \<Rightarrow> cache" where
  "cached age =
     [''AAPL'' \<mapsto> \<lparr>entry_timestamp = 1714750000000 - age, entry_data = demo_result (Arr [])\<rparr>]"

definition days_25 :: "jsval list" where
  "days_25 = day_1 # replicate 24 day_2"

definition six_headlines :: "jsval list" where
  "six_headlines =
     [headline ''One'', headline ''Two'', headline ''Three'', headline ''Four'',
      headline ''Five'', headline ''Six'']"

text \<open>
  A body that is JSON but not a list of news items: an object that reports an error.
\<close>

definition error_object :: jsval where
  "error_object = Obj [(''Error Message'', Str ''Limit Reach. Please upgrade your plan.'')]"

text \<open>The result when the analysis is an object without properties.\<close>

definition bare_result :: result where
  "bare_result =
     \<lparr>ticker = ''AAPL'', pulse = Undefined, reason = Undefined, confidence = Undefined,
      lastPrice = ''183.50'', history = Arr [day_1, day_2], news = Arr [],
      timestamp = ''2024-05-03T15:26:42.500Z''\<rparr>"

text \<open>A body that is not JSON: \<^verbatim>\<open>axios\<close> hands it over as the string it is.\<close>

definition html_page :: jsval where
  "html_page = Str ''<html><body>Service Unavailable</body></html>''"

section \<open>Properties\<close>

subsection \<open>Auxiliary facts\<close>

lemma and_then_Inr [simp]: "and_then (Inr v) f = f v"
  by (simp add: and_then_def)

lemma and_then_Inl [simp]: "and_then (Inl e) f = Inl e"
  by (simp add: and_then_def)

lemma and_then_eq_Inr: "(and_then x f = Inr y) = (\<exists>v. x = Inr v \<and> f v = Inr y)"
  by (cases x) simp_all

lemma Promise_all_Inl [simp]: "Promise_all (Inl e) q = Inl e"
  by (simp add: Promise_all_def)

lemma Promise_all_Inr [simp]: "Promise_all (Inr a) (Inr b) = Inr (a, b)"
  by (simp add: Promise_all_def)

lemma Promise_all_eq_Inr: "(Promise_all p q = Inr x) = (p = Inr (fst x) \<and> q = Inr (snd x))"
  by (cases p; cases q; cases x) (auto simp add: Promise_all_def)

lemmas demo_defs = demo_env_def historical_payload_def gemini_payload_def demo_JSON_parse_def
  demo_parseFloat_toFixed_def bullish_def bullish_text_def sideways_def sideways_text_def
  day_1_def day_2_def headline_def demo_result_def cached_def days_25_def
  six_headlines_def html_page_def error_object_def bare_result_def sharp_s_def
  demo_unicode_toUpperCase_def

lemmas handler_defs = market_pulse_def serve_ticker_def fetch_and_assemble_def cache_hit_def
  getHistoricalData_def getNewsData_def getGeminiAnalysis_def historical_of_outcome_def
  news_of_outcome_def gemini_try_def usable_candidates_def candidate_text_def day_tuple_def assemble_def Promise_all_def
  toUpperCase_def upper_char_def is_ascii_def ticker_regex_def ticker_char_def Let_def
  historical_url_def news_url_def gemini_url_def

lemma cache_hit_iff:
  "cache_hit c t now = (\<exists>e. c t = Some e \<and> now - entry_timestamp e < 600000)"
  by (simp add: cache_hit_def split: option.splits)

lemma serve_ticker_hit:
  "cache_hit c t (Date_now env) \<Longrightarrow>
   serve_ticker env c t = (OK_200 (entry_data (the (c t))), c, [])"
  by (simp add: serve_ticker_def)

lemma serve_ticker_miss:
  "\<not> cache_hit c t (Date_now env) \<Longrightarrow>
   serve_ticker env c t =
     (case snd (fetch_and_assemble env t) of
        Inl e \<Rightarrow> (Server_Error_500 e, c, fst (fetch_and_assemble env t))
      | Inr r \<Rightarrow> (OK_200 r, c(t \<mapsto> \<lparr>entry_timestamp = Date_now env, entry_data = r\<rparr>),
                 fst (fetch_and_assemble env t)))"
  by (simp add: serve_ticker_def Let_def split: prod.splits sum.splits)

lemma market_pulse_valid:
  "ticker_regex (toUpperCase env raw) \<Longrightarrow>
   market_pulse env c raw = serve_ticker env c (toUpperCase env raw)"
  by (simp add: market_pulse_def)

lemma market_pulse_invalid:
  "\<not> ticker_regex (toUpperCase env raw) \<Longrightarrow>
   market_pulse env c raw = (Bad_Request_400 ''Invalid ticker format.'', c, [])"
  by (simp add: market_pulse_def)

lemma fst_getHistoricalData:
  "fst (getHistoricalData env t) =
     (if configured (FMP_API_KEY env)
      then [Call_Historical t, Http_Get (historical_url t (the (FMP_API_KEY env)))]
      else [Call_Historical t])"
  by (simp add: getHistoricalData_def Let_def)

lemma fst_getNewsData:
  "fst (getNewsData env t) =
     (if configured (FMP_API_KEY env)
      then [Call_News t, Http_Get (news_url t (the (FMP_API_KEY env)))]
      else [Call_News t])"
  by (simp add: getNewsData_def Let_def)

lemma fst_getGeminiAnalysis:
  "set (fst (getGeminiAnalysis env t h)) \<subseteq> {Call_Gemini t} \<union> range Http_Post"
  by (auto simp add: getGeminiAnalysis_def Let_def split: sum.splits)

lemma fst_fetch_and_assemble:
  "fst (fetch_and_assemble env t) =
     fst (getHistoricalData env t) @ fst (getNewsData env t) @
     (case Promise_all (snd (getHistoricalData env t)) (snd (getNewsData env t)) of
        Inl e \<Rightarrow> []
      | Inr (h, n) \<Rightarrow> fst (getGeminiAnalysis env t h))"
  by (simp add: fetch_and_assemble_def Let_def split: prod.splits sum.splits)

lemma snd_fetch_and_assemble:
  "snd (fetch_and_assemble env t) =
     and_then (Promise_all (snd (getHistoricalData env t)) (snd (getNewsData env t)))
       (\<lambda>(h, n). and_then (snd (getGeminiAnalysis env t h)) (assemble env t h n))"
  by (simp add: fetch_and_assemble_def Let_def split: prod.splits sum.splits)

lemma fetch_and_assemble_Inr:
  "(snd (fetch_and_assemble env t) = Inr r) =
     (\<exists>h n a. snd (getHistoricalData env t) = Inr h \<and> snd (getNewsData env t) = Inr n \<and>
        snd (getGeminiAnalysis env t h) = Inr a \<and> assemble env t h n a = Inr r)"
  by (auto simp add: snd_fetch_and_assemble and_then_eq_Inr Promise_all_eq_Inr)

lemma assemble_Inr:
  assumes "assemble env t h n a = Inr r"
  shows "\<exists>first cl. index0 h = Inr first \<and> member first ''close'' = Inr cl \<and>
           parseFloat_toFixed env cl = Inr (lastPrice r) \<and> slice_0_20 h = Inr (history r) \<and>
           news r = n \<and> member a ''pulse'' = Inr (pulse r) \<and>
           member a ''reason'' = Inr (reason r) \<and> member a ''confidence'' = Inr (confidence r) \<and>
           ticker r = t \<and> timestamp r = toISOString env (new_Date env)"
  using assms by (auto simp add: assemble_def and_then_eq_Inr)

lemma getGeminiAnalysis_Inr_Arr:
  "snd (getGeminiAnalysis env t h) = Inr a \<Longrightarrow> \<exists>xs. h = Arr xs"
  by (cases h) (auto simp add: getGeminiAnalysis_def Let_def split: if_splits sum.splits)

lemma fetch_events_subset:
  "set (fst (fetch_and_assemble env t)) \<subseteq>
     {Call_Historical t, Call_News t, Call_Gemini t} \<union> range Http_Get \<union> range Http_Post"
proof -
  have "set (fst (getHistoricalData env t)) \<subseteq> {Call_Historical t} \<union> range Http_Get"
    by (simp add: fst_getHistoricalData)
  moreover have "set (fst (getNewsData env t)) \<subseteq> {Call_News t} \<union> range Http_Get"
    by (simp add: fst_getNewsData)
  moreover have "set (case Promise_all (snd (getHistoricalData env t)) (snd (getNewsData env t)) of
        Inl e \<Rightarrow> [] | Inr (h, n) \<Rightarrow> fst (getGeminiAnalysis env t h)) \<subseteq> {Call_Gemini t} \<union> range Http_Post"
    using fst_getGeminiAnalysis by (auto split: sum.splits prod.splits)
  ultimately show ?thesis
    unfolding fst_fetch_and_assemble set_append by blast
qed

lemma serve_ticker_events:
  "set (snd (snd (serve_ticker env c t))) \<subseteq>
     {Call_Historical t, Call_News t, Call_Gemini t} \<union> range Http_Get \<union> range Http_Post"
proof (cases "cache_hit c t (Date_now env)")
  case True
  then show ?thesis by (simp add: serve_ticker_hit)
next
  case False
  then have "snd (snd (serve_ticker env c t)) = fst (fetch_and_assemble env t)"
    by (simp add: serve_ticker_miss split: sum.splits)
  then show ?thesis using fetch_events_subset by simp
qed

lemma serve_ticker_not_400: "fst (serve_ticker env c t) \<noteq> Bad_Request_400 m"
  by (cases "cache_hit c t (Date_now env)")
     (simp_all add: serve_ticker_hit serve_ticker_miss split: sum.splits)

lemma serve_ticker_other_keys: "k \<noteq> t \<Longrightarrow> fst (snd (serve_ticker env c t)) k = c k"
  by (cases "cache_hit c t (Date_now env)")
     (simp_all add: serve_ticker_hit serve_ticker_miss split: sum.splits)

lemma miss_events:
  assumes "\<not> cache_hit c t (Date_now env)"
  shows "snd (snd (serve_ticker env c t)) = fst (fetch_and_assemble env t)"
  using assms by (simp add: serve_ticker_miss split: sum.splits)

subsection \<open>Cache lookup\<close>

text \<open>
  Claim C1. For a ticker that passes the validation and a request arriving at
  \<open>Date_now env\<close>: the lookup is a hit exactly when the cache has an entry for the
  uppercased ticker and the arrival time minus the entry's timestamp is strictly below
  600000 ms. On a hit the response is the stored result, the cache is unchanged and
  there is no upstream event at all (no client is entered, no request leaves). With
  no entry or a stale one, \<^verbatim>\<open>getHistoricalData\<close> and \<^verbatim>\<open>getNewsData\<close> are both called
  for the ticker, and with the FMP key set both requests leave the process.
\<close>

theorem cache_hit_iff_fresh_entry:
  assumes "ticker_regex t" and "t = toUpperCase env raw"
  shows "(cache_hit c t (Date_now env)
            = (\<exists>e. c t = Some e \<and> Date_now env - entry_timestamp e < 600000))
       \<and> (\<forall>e. c t = Some e \<and> Date_now env - entry_timestamp e < 600000 \<longrightarrow>
             market_pulse env c raw = (OK_200 (entry_data e), c, []))
       \<and> (\<not> (\<exists>e. c t = Some e \<and> Date_now env - entry_timestamp e < 600000) \<longrightarrow>
             Call_Historical t \<in> set (snd (snd (market_pulse env c raw)))
           \<and> Call_News t \<in> set (snd (snd (market_pulse env c raw)))
           \<and> (configured (FMP_API_KEY env) \<longrightarrow>
                Http_Get (historical_url t (the (FMP_API_KEY env)))
                  \<in> set (snd (snd (market_pulse env c raw)))
              \<and> Http_Get (news_url t (the (FMP_API_KEY env)))
                  \<in> set (snd (snd (market_pulse env c raw)))))"
proof (intro conjI allI impI)
  show "cache_hit c t (Date_now env)
          = (\<exists>e. c t = Some e \<and> Date_now env - entry_timestamp e < 600000)"
    by (rule cache_hit_iff)
next
  fix e
  assume "c t = Some e \<and> Date_now env - entry_timestamp e < 600000"
  then have "cache_hit c t (Date_now env)" and "the (c t) = e"
    by (auto simp add: cache_hit_iff)
  then show "market_pulse env c raw = (OK_200 (entry_data e), c, [])"
    using assms by (simp add: market_pulse_valid serve_ticker_hit)
next
  assume "\<not> (\<exists>e. c t = Some e \<and> Date_now env - entry_timestamp e < 600000)"
  then have miss: "\<not> cache_hit c t (Date_now env)"
    by (simp add: cache_hit_iff)
  have evs: "snd (snd (market_pulse env c raw)) = fst (fetch_and_assemble env t)"
    using assms miss by (simp add: market_pulse_valid miss_events)
  show "Call_Historical t \<in> set (snd (snd (market_pulse env c raw)))"
    unfolding evs fst_fetch_and_assemble by (simp add: fst_getHistoricalData)
  show "Call_News t \<in> set (snd (snd (market_pulse env c raw)))"
    unfolding evs fst_fetch_and_assemble by (simp add: fst_getNewsData)
  assume "configured (FMP_API_KEY env)"
  then show "Http_Get (historical_url t (the (FMP_API_KEY env)))
               \<in> set (snd (snd (market_pulse env c raw)))"
    and "Http_Get (news_url t (the (FMP_API_KEY env)))
               \<in> set (snd (snd (market_pulse env c raw)))"
    unfolding evs fst_fetch_and_assemble by (simp_all add: fst_getHistoricalData fst_getNewsData)
qed

theorem cache_hit_iff_fresh_entry_witness:
  "ticker_regex ''AAPL'' \<and> ''AAPL''
       = toUpperCase (demo_env (Rejected ''Network Error'' None) (Resolved (Arr []))
             (Rejected ''Network Error'' None)) ''aapl''
   \<and> market_pulse (demo_env (Rejected ''Network Error'' None) (Resolved (Arr [])) (Rejected ''Network Error'' None))
        (cached 599999) ''aapl''
      = (OK_200 (demo_result (Arr [])), cached 599999, [])
   \<and> Call_Historical ''AAPL''
       \<in> set (snd (snd (market_pulse (demo_env (Rejected ''Network Error'' None) (Resolved (Arr [])) (Rejected ''Network Error'' None))
             (cached 600000) ''aapl'')))
   \<and> Http_Get (news_url ''AAPL'' ''fmp-key'')
       \<in> set (snd (snd (market_pulse (demo_env (Rejected ''Network Error'' None) (Resolved (Arr [])) (Rejected ''Network Error'' None))
             (cached 600000) ''aapl'')))"
proof -
  let ?E = "demo_env (Rejected ''Network Error'' None) (Resolved (Arr []))
              (Rejected ''Network Error'' None)"
  let ?fresh = "\<lparr>entry_timestamp = 1714750000000 - 599999, entry_data = demo_result (Arr [])\<rparr>"
  have v: "ticker_regex ''AAPL''"
    by (simp add: ticker_regex_def ticker_char_def)
  have u: "''AAPL'' = toUpperCase ?E ''aapl''"
    by (simp add: toUpperCase_def upper_char_def is_ascii_def)
  have fresh: "cached 599999 ''AAPL'' = Some ?fresh
                 \<and> Date_now ?E - entry_timestamp ?fresh < 600000"
    by (simp add: cached_def demo_env_def)
  have stale: "\<not> (\<exists>e. cached 600000 ''AAPL'' = Some e
                 \<and> Date_now ?E - entry_timestamp e < 600000)"
    by (simp add: cached_def demo_env_def)
  have k: "configured (FMP_API_KEY ?E)" and k': "the (FMP_API_KEY ?E) = ''fmp-key''"
    by (simp_all add: demo_env_def)
  have "market_pulse ?E (cached 599999) ''aapl'' = (OK_200 (entry_data ?fresh), cached 599999, [])"
    using cache_hit_iff_fresh_entry [OF v u, where c = "cached 599999"] fresh by blast
  moreover have "Call_Historical ''AAPL'' \<in> set (snd (snd (market_pulse ?E (cached 600000) ''aapl'')))"
    and "Http_Get (news_url ''AAPL'' ''fmp-key'') \<in> set (snd (snd (market_pulse ?E (cached 600000) ''aapl'')))"
    using cache_hit_iff_fresh_entry [OF v u, where c = "cached 600000"] stale k k' by auto
  ultimately show ?thesis using v u by simp
qed

lemma truthy_member: "truthy d \<Longrightarrow> \<exists>v. member d k = Inr v"
  by (cases d) simp_all

lemma historical_of_outcome_Inl_iff:
  "(historical_of_outcome t out = Inl e) =
     ((\<exists>m r. out = Rejected m r \<and> e = Axios_Error m r)
      \<or> (\<exists>d. out = Resolved d
             \<and> (\<not> truthy d \<or> (\<exists>h. member d ''historical'' = Inr h \<and> \<not> truthy h))
             \<and> e = no_time_series t))"
proof (cases out)
  case (Rejected m r)
  then show ?thesis by (auto simp add: historical_of_outcome_def)
next
  case (Resolved d)
  show ?thesis
  proof (cases "truthy d")
    case False
    then show ?thesis using Resolved by (auto simp add: historical_of_outcome_def)
  next
    case True
    then obtain v where "member d ''historical'' = Inr v"
      using truthy_member by blast
    then show ?thesis using Resolved True by (auto simp add: historical_of_outcome_def)
  qed
qed

lemma getHistoricalData_Inl_iff:
  "(snd (getHistoricalData env t) = Inl e) =
     ((\<not> configured (FMP_API_KEY env) \<and> e = Error ''FMP API key not configured.'')
      \<or> (configured (FMP_API_KEY env)
          \<and> (\<exists>m r. axios_get env (historical_url t (the (FMP_API_KEY env))) = Rejected m r
                   \<and> e = Axios_Error m r))
      \<or> (configured (FMP_API_KEY env)
          \<and> (\<exists>d. axios_get env (historical_url t (the (FMP_API_KEY env))) = Resolved d
                 \<and> (\<not> truthy d \<or> (\<exists>h. member d ''historical'' = Inr h \<and> \<not> truthy h))
                 \<and> e = no_time_series t)))"
proof (cases "configured (FMP_API_KEY env)")
  case False
  then show ?thesis by (auto simp add: getHistoricalData_def)
next
  case True
  then have "snd (getHistoricalData env t)
               = historical_of_outcome t (axios_get env (historical_url t (the (FMP_API_KEY env))))"
    by (simp add: getHistoricalData_def Let_def)
  then show ?thesis using True by (simp add: historical_of_outcome_Inl_iff)
qed

lemma fetch_historical_fails:
  assumes "snd (getHistoricalData env t) = Inl e"
  shows "fetch_and_assemble env t
           = (fst (getHistoricalData env t) @ fst (getNewsData env t), Inl e)"
proof -
  have "fst (fetch_and_assemble env t) = fst (getHistoricalData env t) @ fst (getNewsData env t)"
    using assms by (simp add: fst_fetch_and_assemble)
  moreover have "snd (fetch_and_assemble env t) = Inl e"
    using assms by (simp add: snd_fetch_and_assemble)
  ultimately show ?thesis by (simp add: prod_eq_iff)
qed

lemma no_gemini_in_fmp_events:
  "Call_Gemini x \<notin> set (fst (getHistoricalData env t) @ fst (getNewsData env t))"
  "Http_Post u \<notin> set (fst (getHistoricalData env t) @ fst (getNewsData env t))"
  by (simp_all add: fst_getHistoricalData fst_getNewsData)

subsection \<open>Failure of the historical data\<close>

text \<open>
  Claim C3. On a request that passes the validation and misses the cache,
  \<^verbatim>\<open>getHistoricalData\<close> fails with \<open>e\<close> exactly when the FMP key is not set, or the
  request is rejected (no answer, or a status outside 2xx), or the payload is falsy
  or has no truthy \<^verbatim>\<open>historical\<close>. Whenever it fails with \<open>e\<close>, the response is the
  500 made from \<open>e\<close>, whatever \<^verbatim>\<open>getNewsData\<close> returned is dropped, the cache is left
  as it was, and the events are those of the two FMP clients only:
  \<^verbatim>\<open>getGeminiAnalysis\<close> is not called and nothing is posted.
\<close>

theorem historical_failure_is_fatal:
  assumes "ticker_regex t" and "t = toUpperCase env raw" and "\<not> cache_hit c t (Date_now env)"
  shows "((snd (getHistoricalData env t) = Inl e) =
           ((\<not> configured (FMP_API_KEY env) \<and> e = Error ''FMP API key not configured.'')
            \<or> (configured (FMP_API_KEY env)
                \<and> (\<exists>m r. axios_get env (historical_url t (the (FMP_API_KEY env))) = Rejected m r
                         \<and> e = Axios_Error m r))
            \<or> (configured (FMP_API_KEY env)
                \<and> (\<exists>d. axios_get env (historical_url t (the (FMP_API_KEY env))) = Resolved d
                       \<and> (\<not> truthy d \<or> (\<exists>h. member d ''historical'' = Inr h \<and> \<not> truthy h))
                       \<and> e = no_time_series t))))
       \<and> (snd (getHistoricalData env t) = Inl e \<longrightarrow>
            market_pulse env c raw
              = (Server_Error_500 e, c, fst (getHistoricalData env t) @ fst (getNewsData env t))
          \<and> (\<forall>x. Call_Gemini x \<notin> set (snd (snd (market_pulse env c raw))))
          \<and> (\<forall>u. Http_Post u \<notin> set (snd (snd (market_pulse env c raw)))))"
proof (intro conjI impI)
  show "(snd (getHistoricalData env t) = Inl e) =
           ((\<not> configured (FMP_API_KEY env) \<and> e = Error ''FMP API key not configured.'')
            \<or> (configured (FMP_API_KEY env)
                \<and> (\<exists>m r. axios_get env (historical_url t (the (FMP_API_KEY env))) = Rejected m r
                         \<and> e = Axios_Error m r))
            \<or> (configured (FMP_API_KEY env)
                \<and> (\<exists>d. axios_get env (historical_url t (the (FMP_API_KEY env))) = Resolved d
                       \<and> (\<not> truthy d \<or> (\<exists>h. member d ''historical'' = Inr h \<and> \<not> truthy h))
                       \<and> e = no_time_series t)))"
    by (rule getHistoricalData_Inl_iff)
next
  assume fails: "snd (getHistoricalData env t) = Inl e"
  have "serve_ticker env c t
          = (Server_Error_500 e, c, fst (getHistoricalData env t) @ fst (getNewsData env t))"
    using assms(3) by (simp add: serve_ticker_miss fetch_historical_fails [OF fails])
  then show eq: "market_pulse env c raw
              = (Server_Error_500 e, c, fst (getHistoricalData env t) @ fst (getNewsData env t))"
    using assms(1,2) by (simp add: market_pulse_valid)
  show "\<forall>x. Call_Gemini x \<notin> set (snd (snd (market_pulse env c raw)))"
    unfolding eq using no_gemini_in_fmp_events(1) by simp
  show "\<forall>u. Http_Post u \<notin> set (snd (snd (market_pulse env c raw)))"
    unfolding eq using no_gemini_in_fmp_events(2) by simp
qed

theorem historical_failure_is_fatal_witness:
  "ticker_regex ''AAPL'' \<and> ''AAPL''
       = toUpperCase (demo_env (Resolved (Obj [])) (Resolved (Arr [headline ''Apple'']))
             (gemini_payload bullish_text)) ''aapl''
   \<and> \<not> cache_hit (cached 600000) ''AAPL''
         (Date_now (demo_env (Resolved (Obj [])) (Resolved (Arr [headline ''Apple'']))
            (gemini_payload bullish_text)))
   \<and> snd (getHistoricalData (demo_env (Resolved (Obj [])) (Resolved (Arr [headline ''Apple'']))
            (gemini_payload bullish_text)) ''AAPL'')
       = Inl (Error ''No time series data found for \"AAPL\".'')
   \<and> market_pulse (demo_env (Resolved (Obj [])) (Resolved (Arr [headline ''Apple'']))
        (gemini_payload bullish_text)) (cached 600000) ''aapl''
       = (Server_Error_500 (Error ''No time series data found for \"AAPL\".''), cached 600000,
          [Call_Historical ''AAPL'', Http_Get (historical_url ''AAPL'' ''fmp-key''),
           Call_News ''AAPL'', Http_Get (news_url ''AAPL'' ''fmp-key'')])"
proof -
  let ?E = "demo_env (Resolved (Obj [])) (Resolved (Arr [headline ''Apple'']))
              (gemini_payload bullish_text)"
  have v: "ticker_regex ''AAPL''"
    by (simp add: ticker_regex_def ticker_char_def)
  have u: "''AAPL'' = toUpperCase ?E ''aapl''"
    by (simp add: toUpperCase_def upper_char_def is_ascii_def)
  have miss: "\<not> cache_hit (cached 600000) ''AAPL'' (Date_now ?E)"
    by (simp add: cache_hit_def cached_def demo_env_def)
  have fails: "snd (getHistoricalData ?E ''AAPL'')
                 = Inl (Error ''No time series data found for \"AAPL\".'')"
    by (simp add: getHistoricalData_def historical_of_outcome_def no_time_series_def
        demo_env_def news_url_def historical_url_def)
  have evs: "fst (getHistoricalData ?E ''AAPL'') @ fst (getNewsData ?E ''AAPL'')
               = [Call_Historical ''AAPL'', Http_Get (historical_url ''AAPL'' ''fmp-key''),
                  Call_News ''AAPL'', Http_Get (news_url ''AAPL'' ''fmp-key'')]"
    by (simp add: fst_getHistoricalData fst_getNewsData demo_env_def)
  show ?thesis
    using v u miss fails evs
      historical_failure_is_fatal [OF v u miss,
        where e = "Error ''No time series data found for \"AAPL\".''"]
    by simp
qed

lemma getHistoricalData_Inr_configured:
  "snd (getHistoricalData env t) = Inr h \<Longrightarrow> configured (FMP_API_KEY env)"
  by (auto simp add: getHistoricalData_def split: if_splits)

lemma getNewsData_configured:
  "configured (FMP_API_KEY env) \<Longrightarrow>
   snd (getNewsData env t)
     = Inr (news_of_outcome (axios_get env (news_url t (the (FMP_API_KEY env)))))"
  by (simp add: getNewsData_def Let_def)



lemma gemini_try_Inr_iff:
  "(gemini_try env out = Inr a) =
     (\<exists>d txt. out = Resolved d \<and> usable_candidates env d = Inr True
        \<and> candidate_text d = Inr txt \<and> JSON_parse env txt = Some a)"
proof (cases out)
  case (Rejected m r)
  then show ?thesis by (simp add: gemini_try_def)
next
  case (Resolved d)
  show ?thesis
  proof (cases "usable_candidates env d")
    case (Inl e)
    then show ?thesis using Resolved by (simp add: gemini_try_def)
  next
    case (Inr u)
    show ?thesis
    proof (cases u)
      case False
      then show ?thesis using Resolved Inr by (simp add: gemini_try_def)
    next
      case True
      show ?thesis
      proof (cases "candidate_text d")
        case (Inl e)
        then show ?thesis using Resolved Inr True by (simp add: gemini_try_def)
      next
        case (Inr tx)
        then show ?thesis using Resolved \<open>usable_candidates env d = Inr u\<close> True
          by (cases "JSON_parse env tx") (simp_all add: gemini_try_def)
      qed
    qed
  qed
qed

lemma getGeminiAnalysis_Inr_iff:
  "(snd (getGeminiAnalysis env t h) = Inr a) =
     (configured (GEMINI_API_KEY env)
      \<and> (\<exists>rd d txt. recentData h = Inr rd
            \<and> axios_post env (gemini_url (the (GEMINI_API_KEY env))) (Prompt t rd) = Resolved d
            \<and> usable_candidates env d = Inr True
            \<and> candidate_text d = Inr txt \<and> JSON_parse env txt = Some a))"
proof (cases "configured (GEMINI_API_KEY env)")
  case False
  then show ?thesis by (simp add: getGeminiAnalysis_def)
next
  case True
  show ?thesis
  proof (cases "recentData h")
    case (Inl e)
    then show ?thesis using True by (simp add: getGeminiAnalysis_def)
  next
    case (Inr rd)
    have "(snd (getGeminiAnalysis env t h) = Inr a)
            = (gemini_try env (axios_post env (gemini_url (the (GEMINI_API_KEY env))) (Prompt t rd))
                 = Inr a)"
      using True Inr by (simp add: getGeminiAnalysis_def Let_def split: sum.splits)
    then show ?thesis using True Inr by (simp add: gemini_try_Inr_iff)
  qed
qed

lemma sum_fails_iff: "(\<exists>e. x = Inl e) = (\<not> (\<exists>a. x = Inr a))"
  by (cases x) simp_all

lemma fetch_gemini_fails:
  assumes "snd (getHistoricalData env t) = Inr h"
    and "snd (getGeminiAnalysis env t h) = Inl e"
  shows "fetch_and_assemble env t
           = (fst (getHistoricalData env t) @ fst (getNewsData env t)
                @ fst (getGeminiAnalysis env t h), Inl e)"
proof -
  have n: "snd (getNewsData env t)
             = Inr (news_of_outcome (axios_get env (news_url t (the (FMP_API_KEY env)))))"
    using assms(1) by (simp add: getHistoricalData_Inr_configured getNewsData_configured)
  have "fst (fetch_and_assemble env t)
          = fst (getHistoricalData env t) @ fst (getNewsData env t)
              @ fst (getGeminiAnalysis env t h)"
    using assms(1) n by (simp add: fst_fetch_and_assemble)
  moreover have "snd (fetch_and_assemble env t) = Inl e"
    using assms n by (simp add: snd_fetch_and_assemble)
  ultimately show ?thesis by (simp add: prod_eq_iff)
qed

lemma ok_response_anatomy:
  assumes "ticker_regex t" and "t = toUpperCase env raw" and "\<not> cache_hit c t (Date_now env)"
    and "fst (market_pulse env c raw) = OK_200 r"
  shows "\<exists>h n a. snd (getHistoricalData env t) = Inr h \<and> snd (getNewsData env t) = Inr n
           \<and> snd (getGeminiAnalysis env t h) = Inr a \<and> assemble env t h n a = Inr r
           \<and> market_pulse env c raw
               = (OK_200 r, c(t \<mapsto> \<lparr>entry_timestamp = Date_now env, entry_data = r\<rparr>),
                  fst (fetch_and_assemble env t))"
proof -
  have mp: "market_pulse env c raw = serve_ticker env c t"
    using assms(1,2) by (simp add: market_pulse_valid)
  show ?thesis
  proof (cases "snd (fetch_and_assemble env t)")
    case (Inl e)
    then have "fst (market_pulse env c raw) = Server_Error_500 e"
      unfolding mp by (simp add: serve_ticker_miss [OF assms(3)])
    then show ?thesis using assms(4) by simp
  next
    case (Inr r')
    then have eq: "market_pulse env c raw
                 = (OK_200 r', c(t \<mapsto> \<lparr>entry_timestamp = Date_now env, entry_data = r'\<rparr>),
                    fst (fetch_and_assemble env t))"
      unfolding mp by (simp add: serve_ticker_miss [OF assms(3)])
    then have "r' = r" using assms(4) by simp
    then show ?thesis using eq Inr by (simp add: fetch_and_assemble_Inr)
  qed
qed

lemma assemble_first_point:
  assumes "assemble env t (Arr xs) n a = Inr r"
  shows "xs \<noteq> [] \<and> (\<exists>cl. member (hd xs) ''close'' = Inr cl
           \<and> parseFloat_toFixed env cl = Inr (lastPrice r))
         \<and> history r = Arr (take 20 xs)"
proof -
  obtain first cl where f: "index0 (Arr xs) = Inr first"
    and cl: "member first ''close'' = Inr cl"
    and p: "parseFloat_toFixed env cl = Inr (lastPrice r)"
    and s: "slice_0_20 (Arr xs) = Inr (history r)"
    using assemble_Inr [OF assms] by blast
  show ?thesis
  proof (cases xs)
    case Nil
    then show ?thesis using f cl by auto
  next
    case (Cons x ys)
    then show ?thesis using f cl p s by auto
  qed
qed

subsection \<open>The assembled result\<close>

text \<open>
  Claim C6. When a request that passes the validation and misses the cache is
  answered with 200 and the result \<open>r\<close>, the historical series is an array \<open>xs\<close> of
  \<open>n \<ge> 1\<close> points, and: \<open>lastPrice r\<close> is \<^verbatim>\<open>parseFloat(close).toFixed(2)\<close> of the \<^verbatim>\<open>close\<close>
  of the first point; \<open>history r\<close> is the first \<open>min n 20\<close> points of \<open>xs\<close> in their
  order; \<open>news r\<close> is what \<^verbatim>\<open>getNewsData\<close> returned; \<open>pulse r\<close>, \<open>reason r\<close> and
  \<open>confidence r\<close> are the properties of that name of what \<^verbatim>\<open>getGeminiAnalysis\<close>
  returned.
\<close>

theorem result_is_assembled_from_the_three_steps:
  assumes "ticker_regex t" and "t = toUpperCase env raw" and "\<not> cache_hit c t (Date_now env)"
    and "fst (market_pulse env c raw) = OK_200 r"
  shows "\<exists>xs nw a cl.
           snd (getHistoricalData env t) = Inr (Arr xs) \<and> 1 \<le> length xs
         \<and> snd (getNewsData env t) = Inr nw
         \<and> snd (getGeminiAnalysis env t (Arr xs)) = Inr a
         \<and> member (hd xs) ''close'' = Inr cl \<and> parseFloat_toFixed env cl = Inr (lastPrice r)
         \<and> history r = Arr (take 20 xs) \<and> length (take 20 xs) = min (length xs) 20
         \<and> news r = nw
         \<and> member a ''pulse'' = Inr (pulse r) \<and> member a ''reason'' = Inr (reason r)
         \<and> member a ''confidence'' = Inr (confidence r)"
proof -
  obtain h n a where h: "snd (getHistoricalData env t) = Inr h"
    and n: "snd (getNewsData env t) = Inr n"
    and a: "snd (getGeminiAnalysis env t h) = Inr a"
    and r: "assemble env t h n a = Inr r"
    using ok_response_anatomy [OF assms] by blast
  obtain xs where xs: "h = Arr xs"
    using getGeminiAnalysis_Inr_Arr [OF a] by blast
  have first: "xs \<noteq> [] \<and> (\<exists>cl. member (hd xs) ''close'' = Inr cl
           \<and> parseFloat_toFixed env cl = Inr (lastPrice r))
         \<and> history r = Arr (take 20 xs)"
    using r unfolding xs by (rule assemble_first_point)
  then obtain cl where cl: "member (hd xs) ''close'' = Inr cl"
    and p: "parseFloat_toFixed env cl = Inr (lastPrice r)"
    by blast
  have len: "1 \<le> length xs"
    using first by (cases xs) simp_all
  have rest: "news r = n \<and> member a ''pulse'' = Inr (pulse r)
      \<and> member a ''reason'' = Inr (reason r) \<and> member a ''confidence'' = Inr (confidence r)"
    using assemble_Inr [OF r] by blast
  show ?thesis
    using h n a xs len cl p first rest by (auto simp add: min.commute)
qed

theorem result_is_assembled_from_the_three_steps_witness:
  "ticker_regex ''AAPL'' \<and> ''AAPL''
       = toUpperCase (demo_env (historical_payload days_25) (Resolved
             (Arr [headline ''One'', headline ''Two'', headline ''Three'']))
             (gemini_payload bullish_text)) ''aapl''
   \<and> \<not> cache_hit Map.empty ''AAPL''
         (Date_now (demo_env (historical_payload days_25)
            (Resolved (Arr [headline ''One'', headline ''Two'', headline ''Three'']))
            (gemini_payload bullish_text)))
   \<and> fst (market_pulse (demo_env (historical_payload days_25)
            (Resolved (Arr [headline ''One'', headline ''Two'', headline ''Three'']))
            (gemini_payload bullish_text)) Map.empty ''aapl'')
       = OK_200 ((demo_result (Arr [headline ''One'', headline ''Two'', headline ''Three'']))
                   \<lparr>history := Arr (day_1 # replicate 19 day_2)\<rparr>)
   \<and> (\<exists>xs nw a cl.
           snd (getHistoricalData (demo_env (historical_payload days_25)
            (Resolved (Arr [headline ''One'', headline ''Two'', headline ''Three'']))
            (gemini_payload bullish_text)) ''AAPL'') = Inr (Arr xs) \<and> 1 \<le> length xs
         \<and> snd (getNewsData (demo_env (historical_payload days_25)
            (Resolved (Arr [headline ''One'', headline ''Two'', headline ''Three'']))
            (gemini_payload bullish_text)) ''AAPL'') = Inr nw
         \<and> snd (getGeminiAnalysis (demo_env (historical_payload days_25)
            (Resolved (Arr [headline ''One'', headline ''Two'', headline ''Three'']))
            (gemini_payload bullish_text)) ''AAPL'' (Arr xs)) = Inr a
         \<and> member (hd xs) ''close'' = Inr cl
         \<and> parseFloat_toFixed (demo_env (historical_payload days_25)
            (Resolved (Arr [headline ''One'', headline ''Two'', headline ''Three'']))
            (gemini_payload bullish_text)) cl
             = Inr (lastPrice ((demo_result (Arr [headline ''One'', headline ''Two'', headline ''Three'']))
                   \<lparr>history := Arr (day_1 # replicate 19 day_2)\<rparr>))
         \<and> history ((demo_result (Arr [headline ''One'', headline ''Two'', headline ''Three'']))
                   \<lparr>history := Arr (day_1 # replicate 19 day_2)\<rparr>) = Arr (take 20 xs)
         \<and> length (take 20 xs) = min (length xs) 20
         \<and> news ((demo_result (Arr [headline ''One'', headline ''Two'', headline ''Three'']))
                   \<lparr>history := Arr (day_1 # replicate 19 day_2)\<rparr>) = nw
         \<and> member a ''pulse'' = Inr (pulse ((demo_result (Arr [headline ''One'', headline ''Two'', headline ''Three'']))
                   \<lparr>history := Arr (day_1 # replicate 19 day_2)\<rparr>))
         \<and> member a ''reason'' = Inr (reason ((demo_result (Arr [headline ''One'', headline ''Two'', headline ''Three'']))
                   \<lparr>history := Arr (day_1 # replicate 19 day_2)\<rparr>))
         \<and> member a ''confidence'' = Inr (confidence ((demo_result (Arr [headline ''One'', headline ''Two'', headline ''Three'']))
                   \<lparr>history := Arr (day_1 # replicate 19 day_2)\<rparr>)))"
proof -
  let ?E = "demo_env (historical_payload days_25)
            (Resolved (Arr [headline ''One'', headline ''Two'', headline ''Three'']))
            (gemini_payload bullish_text)"
  have v: "ticker_regex ''AAPL''"
    by (simp add: ticker_regex_def ticker_char_def)
  have u: "''AAPL'' = toUpperCase ?E ''aapl''"
    by (simp add: toUpperCase_def upper_char_def is_ascii_def)
  have miss: "\<not> cache_hit Map.empty ''AAPL'' (Date_now ?E)"
    by (simp add: cache_hit_def)
  have ok: "fst (market_pulse ?E Map.empty ''aapl'')
       = OK_200 ((demo_result (Arr [headline ''One'', headline ''Two'', headline ''Three'']))
                   \<lparr>history := Arr (day_1 # replicate 19 day_2)\<rparr>)"
    by (simp add: handler_defs demo_defs eval_nat_numeral)
  show ?thesis
    using v u miss ok result_is_assembled_from_the_three_steps [OF v u miss ok]
    by (intro conjI)
qed

subsection \<open>The timestamp of the cache entry\<close>

text \<open>
  Claim C7, as amended. When a request that passes the validation and misses the
  cache is answered with 200, the cache afterwards is the cache before with one
  entry written under the uppercased ticker, holding the result and, as its
  timestamp (the value later compared with the 10 minutes), the reading of
  \<^verbatim>\<open>Date.now()\<close> taken when the request arrived, before the cache lookup and the
  upstream requests. The instant at which the result is assembled and the entry is
  written only appears, as text, in the \<^verbatim>\<open>timestamp\<close> of the result.
\<close>

theorem cache_entry_stamped_with_arrival_time:
  assumes "ticker_regex t" and "t = toUpperCase env raw" and "\<not> cache_hit c t (Date_now env)"
    and "fst (market_pulse env c raw) = OK_200 r"
  shows "fst (snd (market_pulse env c raw))
           = c(t \<mapsto> \<lparr>entry_timestamp = Date_now env, entry_data = r\<rparr>)
       \<and> timestamp r = toISOString env (new_Date env)"
proof -
  obtain h n a where r: "assemble env t h n a = Inr r"
    and eq: "market_pulse env c raw
               = (OK_200 r, c(t \<mapsto> \<lparr>entry_timestamp = Date_now env, entry_data = r\<rparr>),
                  fst (fetch_and_assemble env t))"
    using ok_response_anatomy [OF assms] by blast
  have "timestamp r = toISOString env (new_Date env)"
    using assemble_Inr [OF r] by blast
  then show ?thesis using eq by simp
qed

theorem cache_entry_stamped_with_arrival_time_witness:
  "ticker_regex ''AAPL'' \<and> ''AAPL''
       = toUpperCase (demo_env (historical_payload [day_1, day_2]) (Resolved (Arr []))
             (gemini_payload bullish_text)) ''aapl''
   \<and> \<not> cache_hit (cached 600000) ''AAPL''
         (Date_now (demo_env (historical_payload [day_1, day_2]) (Resolved (Arr []))
            (gemini_payload bullish_text)))
   \<and> fst (market_pulse (demo_env (historical_payload [day_1, day_2]) (Resolved (Arr []))
            (gemini_payload bullish_text)) (cached 600000) ''aapl'')
       = OK_200 (demo_result (Arr []))
   \<and> fst (snd (market_pulse (demo_env (historical_payload [day_1, day_2]) (Resolved (Arr []))
            (gemini_payload bullish_text)) (cached 600000) ''aapl''))
       = (cached 600000)
           (''AAPL'' \<mapsto> \<lparr>entry_timestamp = 1714750000000, entry_data = demo_result (Arr [])\<rparr>)"
proof -
  let ?E = "demo_env (historical_payload [day_1, day_2]) (Resolved (Arr []))
              (gemini_payload bullish_text)"
  have v: "ticker_regex ''AAPL''"
    by (simp add: ticker_regex_def ticker_char_def)
  have u: "''AAPL'' = toUpperCase ?E ''aapl''"
    by (simp add: toUpperCase_def upper_char_def is_ascii_def)
  have miss: "\<not> cache_hit (cached 600000) ''AAPL'' (Date_now ?E)"
    by (simp add: cache_hit_def cached_def demo_env_def)
  have ok: "fst (market_pulse ?E (cached 600000) ''aapl'') = OK_200 (demo_result (Arr []))"
    by (simp add: handler_defs demo_defs)
  have now: "Date_now ?E = 1714750000000"
    by (simp add: demo_env_def)
  show ?thesis
    using v u miss ok now cache_entry_stamped_with_arrival_time [OF v u miss ok]
    by simp
qed

text \<open>
  Claim C7 as stated fails: the request below arrives at 1714750000000, its result
  is assembled and its entry written at 1714750002500, and the entry's timestamp
  is 1714750000000.
\<close>

theorem cache_entry_stamped_at_write_counterexample:
  "fst (market_pulse (demo_env (historical_payload [day_1, day_2]) (Resolved (Arr []))
          (gemini_payload bullish_text)) Map.empty ''aapl'')
     = OK_200 (demo_result (Arr []))
   \<and> map_option entry_timestamp
        (fst (snd (market_pulse (demo_env (historical_payload [day_1, day_2]) (Resolved (Arr []))
          (gemini_payload bullish_text)) Map.empty ''aapl'')) ''AAPL'')
       = Some 1714750000000
   \<and> new_Date (demo_env (historical_payload [day_1, day_2]) (Resolved (Arr []))
          (gemini_payload bullish_text)) = 1714750002500
   \<and> map_option entry_timestamp
        (fst (snd (market_pulse (demo_env (historical_payload [day_1, day_2]) (Resolved (Arr []))
          (gemini_payload bullish_text)) Map.empty ''aapl'')) ''AAPL'')
       \<noteq> Some (new_Date (demo_env (historical_payload [day_1, day_2]) (Resolved (Arr []))
          (gemini_payload bullish_text)))"
  by (simp add: handler_defs demo_defs)

subsection \<open>The vocabulary of pulse and confidence\<close>

text \<open>
  Claim C8, as amended. When a request that passes the validation and misses the
  cache is answered with 200 and the result \<open>r\<close>, the service answered the post with
  a payload whose candidate text \<^verbatim>\<open>JSON.parse\<close> turned into a value \<open>a\<close>, and
  \<open>pulse r\<close> and \<open>confidence r\<close> are the properties \<^verbatim>\<open>pulse\<close> and \<^verbatim>\<open>confidence\<close> of \<open>a\<close>
  as they are (\<^verbatim>\<open>undefined\<close> when \<open>a\<close> has none): nothing compares them with a
  vocabulary. They are one of the three words each exactly when the text of the
  service says so.
\<close>

theorem pulse_and_confidence_are_the_parsed_values:
  assumes "ticker_regex t" and "t = toUpperCase env raw" and "\<not> cache_hit c t (Date_now env)"
    and "fst (market_pulse env c raw) = OK_200 r"
  shows "\<exists>h rd d tx a.
           snd (getHistoricalData env t) = Inr h \<and> recentData h = Inr rd
         \<and> axios_post env (gemini_url (the (GEMINI_API_KEY env))) (Prompt t rd) = Resolved d
         \<and> candidate_text d = Inr tx \<and> JSON_parse env tx = Some a
         \<and> member a ''pulse'' = Inr (pulse r) \<and> member a ''confidence'' = Inr (confidence r)"
proof -
  obtain h n a where h: "snd (getHistoricalData env t) = Inr h"
    and a: "snd (getGeminiAnalysis env t h) = Inr a"
    and r: "assemble env t h n a = Inr r"
    using ok_response_anatomy [OF assms] by blast
  obtain rd d tx where "recentData h = Inr rd"
    and "axios_post env (gemini_url (the (GEMINI_API_KEY env))) (Prompt t rd) = Resolved d"
    and "candidate_text d = Inr tx" and "JSON_parse env tx = Some a"
    using a unfolding getGeminiAnalysis_Inr_iff by blast
  moreover have "member a ''pulse'' = Inr (pulse r) \<and> member a ''confidence'' = Inr (confidence r)"
    using assemble_Inr [OF r] by blast
  ultimately show ?thesis using h by blast
qed

theorem pulse_and_confidence_are_the_parsed_values_witness:
  "ticker_regex ''AAPL'' \<and> ''AAPL''
       = toUpperCase (demo_env (historical_payload [day_1, day_2]) (Resolved (Arr []))
             (gemini_payload bullish_text)) ''aapl''
   \<and> \<not> cache_hit Map.empty ''AAPL''
         (Date_now (demo_env (historical_payload [day_1, day_2]) (Resolved (Arr []))
            (gemini_payload bullish_text)))
   \<and> fst (market_pulse (demo_env (historical_payload [day_1, day_2]) (Resolved (Arr []))
            (gemini_payload bullish_text)) Map.empty ''aapl'')
       = OK_200 (demo_result (Arr []))
   \<and> (\<exists>h rd d tx a.
           snd (getHistoricalData (demo_env (historical_payload [day_1, day_2]) (Resolved (Arr []))
            (gemini_payload bullish_text)) ''AAPL'') = Inr h \<and> recentData h = Inr rd
         \<and> axios_post (demo_env (historical_payload [day_1, day_2]) (Resolved (Arr []))
            (gemini_payload bullish_text))
             (gemini_url (the (GEMINI_API_KEY (demo_env (historical_payload [day_1, day_2])
                (Resolved (Arr [])) (gemini_payload bullish_text))))) (Prompt ''AAPL'' rd)
             = Resolved d
         \<and> candidate_text d = Inr tx
         \<and> JSON_parse (demo_env (historical_payload [day_1, day_2]) (Resolved (Arr []))
            (gemini_payload bullish_text)) tx = Some a
         \<and> member a ''pulse'' = Inr (pulse (demo_result (Arr [])))
         \<and> member a ''confidence'' = Inr (confidence (demo_result (Arr []))))"
proof -
  let ?E = "demo_env (historical_payload [day_1, day_2]) (Resolved (Arr []))
              (gemini_payload bullish_text)"
  have v: "ticker_regex ''AAPL''"
    by (simp add: ticker_regex_def ticker_char_def)
  have u: "''AAPL'' = toUpperCase ?E ''aapl''"
    by (simp add: toUpperCase_def upper_char_def is_ascii_def)
  have miss: "\<not> cache_hit Map.empty ''AAPL'' (Date_now ?E)"
    by (simp add: cache_hit_def)
  have ok: "fst (market_pulse ?E Map.empty ''aapl'') = OK_200 (demo_result (Arr []))"
    by (simp add: handler_defs demo_defs)
  show ?thesis
    using v u miss ok pulse_and_confidence_are_the_parsed_values [OF v u miss ok]
    by (intro conjI)
qed

text \<open>
  Claim C8 as stated fails: when the text of the service is
  \<^verbatim>\<open>{"pulse": "Sideways", "reason": "No clear trend.", "confidence": "Very High"}\<close>
  the response is a 200 whose \<^verbatim>\<open>pulse\<close> is \<^verbatim>\<open>Sideways\<close> and whose \<^verbatim>\<open>confidence\<close> is
  \<^verbatim>\<open>Very High\<close>.
\<close>

theorem pulse_in_vocabulary_counterexample:
  "fst (market_pulse (demo_env (historical_payload [day_1, day_2]) (Resolved (Arr []))
          (gemini_payload sideways_text)) Map.empty ''aapl'')
     = OK_200 ((demo_result (Arr []))
         \<lparr>pulse := Str ''Sideways'', reason := Str ''No clear trend.'',
          confidence := Str ''Very High''\<rparr>)
   \<and> Str ''Sideways'' \<notin> {Str ''Bullish'', Str ''Bearish'', Str ''Neutral''}
   \<and> Str ''Very High'' \<notin> {Str ''Low'', Str ''Medium'', Str ''High''}"
  by (simp add: handler_defs demo_defs)



subsection \<open>The number of news items\<close>

text \<open>
  Claim C9, as amended. When a request that passes the validation and misses the
  cache is answered with 200 and the result \<open>r\<close>, \<open>news r\<close> is what the news request
  gave, unchanged: the payload when it is truthy, the empty list when it is falsy or
  the request was rejected. Nothing cuts it to 5 items: the 5 is the \<^verbatim>\<open>limit=5\<close> of
  the request URL. So \<open>news r\<close> has at most 5 items whenever the provider returns a
  list of at most 5 items, and as many items as the provider returns in any case.
\<close>

theorem news_is_the_provider_payload:
  assumes "ticker_regex t" and "t = toUpperCase env raw" and "\<not> cache_hit c t (Date_now env)"
    and "fst (market_pulse env c raw) = OK_200 r"
  shows "configured (FMP_API_KEY env)
       \<and> news r = news_of_outcome (axios_get env (news_url t (the (FMP_API_KEY env))))
       \<and> (\<forall>items. axios_get env (news_url t (the (FMP_API_KEY env))) = Resolved (Arr items)
            \<longrightarrow> news r = Arr items)
       \<and> (\<forall>items. axios_get env (news_url t (the (FMP_API_KEY env))) = Resolved (Arr items)
              \<and> length items \<le> 5
            \<longrightarrow> (\<exists>ys. news r = Arr ys \<and> length ys \<le> 5))
       \<and> news_url t (the (FMP_API_KEY env))
           = ''https://financialmodelingprep.com/api/v3/stock_news?tickers='' @ t
               @ ''&limit=5&apikey='' @ the (FMP_API_KEY env)"
proof -
  obtain h n a where h: "snd (getHistoricalData env t) = Inr h"
    and n: "snd (getNewsData env t) = Inr n"
    and r: "assemble env t h n a = Inr r"
    using ok_response_anatomy [OF assms] by blast
  have key: "configured (FMP_API_KEY env)"
    using h by (rule getHistoricalData_Inr_configured)
  have "news r = n"
    using assemble_Inr [OF r] by blast
  then have nw: "news r = news_of_outcome (axios_get env (news_url t (the (FMP_API_KEY env))))"
    using n key by (simp add: getNewsData_configured)
  have arr: "\<forall>items. axios_get env (news_url t (the (FMP_API_KEY env))) = Resolved (Arr items)
            \<longrightarrow> news r = Arr items"
    unfolding nw by (simp add: news_of_outcome_def)
  then have cap: "\<forall>items. axios_get env (news_url t (the (FMP_API_KEY env))) = Resolved (Arr items)
              \<and> length items \<le> 5
            \<longrightarrow> (\<exists>ys. news r = Arr ys \<and> length ys \<le> 5)"
    by blast
  have url: "news_url t (the (FMP_API_KEY env))
           = ''https://financialmodelingprep.com/api/v3/stock_news?tickers='' @ t
               @ ''&limit=5&apikey='' @ the (FMP_API_KEY env)"
    by (simp add: news_url_def)
  show ?thesis
    using key nw arr cap url by (intro conjI)
qed

theorem news_is_the_provider_payload_witness:
  "ticker_regex ''AAPL'' \<and> ''AAPL''
       = toUpperCase (demo_env (historical_payload [day_1, day_2]) (Resolved
             (Arr [headline ''One'', headline ''Two'']))
             (gemini_payload bullish_text)) ''aapl''
   \<and> \<not> cache_hit Map.empty ''AAPL''
         (Date_now (demo_env (historical_payload [day_1, day_2])
            (Resolved (Arr [headline ''One'', headline ''Two''])) (gemini_payload bullish_text)))
   \<and> fst (market_pulse (demo_env (historical_payload [day_1, day_2])
            (Resolved (Arr [headline ''One'', headline ''Two''])) (gemini_payload bullish_text))
          Map.empty ''aapl'')
       = OK_200 (demo_result (Arr [headline ''One'', headline ''Two'']))
   \<and> axios_get (demo_env (historical_payload [day_1, day_2])
            (Resolved (Arr [headline ''One'', headline ''Two''])) (gemini_payload bullish_text))
        (news_url ''AAPL'' (the (FMP_API_KEY (demo_env (historical_payload [day_1, day_2])
            (Resolved (Arr [headline ''One'', headline ''Two''])) (gemini_payload bullish_text)))))
       = Resolved (Arr [headline ''One'', headline ''Two''])
   \<and> length [headline ''One'', headline ''Two''] \<le> 5
   \<and> (\<exists>ys. news (demo_result (Arr [headline ''One'', headline ''Two''])) = Arr ys
          \<and> length ys \<le> 5)"
proof -
  let ?E = "demo_env (historical_payload [day_1, day_2])
            (Resolved (Arr [headline ''One'', headline ''Two''])) (gemini_payload bullish_text)"
  have v: "ticker_regex ''AAPL''"
    by (simp add: ticker_regex_def ticker_char_def)
  have u: "''AAPL'' = toUpperCase ?E ''aapl''"
    by (simp add: toUpperCase_def upper_char_def is_ascii_def)
  have miss: "\<not> cache_hit Map.empty ''AAPL'' (Date_now ?E)"
    by (simp add: cache_hit_def)
  have ok: "fst (market_pulse ?E Map.empty ''aapl'')
              = OK_200 (demo_result (Arr [headline ''One'', headline ''Two'']))"
    by (simp add: handler_defs demo_defs)
  have got: "axios_get ?E (news_url ''AAPL'' (the (FMP_API_KEY ?E)))
               = Resolved (Arr [headline ''One'', headline ''Two''])"
    by (simp add: demo_env_def)
  have len: "length [headline ''One'', headline ''Two''] \<le> 5"
    by simp
  have "\<exists>ys. news (demo_result (Arr [headline ''One'', headline ''Two''])) = Arr ys
          \<and> length ys \<le> 5"
    using news_is_the_provider_payload [OF v u miss ok] got len by blast
  then show ?thesis
    using v u miss ok got len by (intro conjI)
qed

text \<open>
  Claim C9 as stated fails: when the provider returns six items, the response is a
  200 whose \<^verbatim>\<open>news\<close> has the six.
\<close>

theorem news_at_most_five_counterexample:
  "fst (market_pulse (demo_env (historical_payload [day_1, day_2])
          (Resolved (Arr six_headlines)) (gemini_payload bullish_text)) Map.empty ''aapl'')
     = OK_200 (demo_result (Arr six_headlines))
   \<and> news (demo_result (Arr six_headlines)) = Arr six_headlines
   \<and> length six_headlines = 6"
  by (simp add: handler_defs demo_defs)

subsection \<open>Failure of the news\<close>




lemma char_eq_code: "(c = d) = ((of_char c :: nat) = of_char d)"
  by simp

lemma letter_codes:
  "((65::nat) \<le> n \<and> n \<le> 90) =
     (n = 65 \<or> n = 66 \<or> n = 67 \<or> n = 68 \<or> n = 69 \<or> n = 70 \<or> n = 71 \<or> n = 72 \<or> n = 73
      \<or> n = 74 \<or> n = 75 \<or> n = 76 \<or> n = 77 \<or> n = 78 \<or> n = 79 \<or> n = 80 \<or> n = 81 \<or> n = 82
      \<or> n = 83 \<or> n = 84 \<or> n = 85 \<or> n = 86 \<or> n = 87 \<or> n = 88 \<or> n = 89 \<or> n = 90)"
  by arith

lemma digit_codes:
  "((48::nat) \<le> n \<and> n \<le> 57) =
     (n = 48 \<or> n = 49 \<or> n = 50 \<or> n = 51 \<or> n = 52 \<or> n = 53 \<or> n = 54 \<or> n = 55 \<or> n = 56
      \<or> n = 57)"
  by arith

lemma ticker_char_iff:
  "ticker_char c = (c \<in> set ''ABCDEFGHIJKLMNOPQRSTUVWXYZ0123456789.-'')"
  unfolding ticker_char_def letter_codes digit_codes
  by (simp add: char_eq_code [of c])

lemma ticker_regex_iff:
  "ticker_regex u =
     (1 \<le> length u \<and> length u \<le> 10
      \<and> set u \<subseteq> set ''ABCDEFGHIJKLMNOPQRSTUVWXYZ0123456789.-'')"
  unfolding ticker_regex_def list_all_iff ticker_char_iff by blast

lemma upper_char_lower:
  "c \<in> set ''abcdefghijklmnopqrstuvwxyz'' \<Longrightarrow>
   upper_char c \<in> set ''ABCDEFGHIJKLMNOPQRSTUVWXYZ''"
  by (auto simp add: upper_char_def)

lemma upper_char_other:
  "c \<notin> set ''abcdefghijklmnopqrstuvwxyz'' \<Longrightarrow> upper_char c = c"
  by (simp add: upper_char_def)

lemma upper_char_in_class:
  "(upper_char c \<in> set ''ABCDEFGHIJKLMNOPQRSTUVWXYZ0123456789.-'') =
     (c \<in> set ''ABCDEFGHIJKLMNOPQRSTUVWXYZabcdefghijklmnopqrstuvwxyz0123456789.-'')"
proof (cases "c \<in> set ''abcdefghijklmnopqrstuvwxyz''")
  case True
  then have "upper_char c \<in> set ''ABCDEFGHIJKLMNOPQRSTUVWXYZ''"
    by (rule upper_char_lower)
  then have "upper_char c \<in> set ''ABCDEFGHIJKLMNOPQRSTUVWXYZ0123456789.-''"
    by auto
  moreover have "c \<in> set ''ABCDEFGHIJKLMNOPQRSTUVWXYZabcdefghijklmnopqrstuvwxyz0123456789.-''"
    using True by auto
  ultimately show ?thesis by blast
next
  case False
  then have "upper_char c = c"
    by (rule upper_char_other)
  then show ?thesis using False by auto
qed

lemma map_subset_iff:
  assumes "\<And>c. (f c \<in> S) = (c \<in> S')"
  shows "(set (map f xs) \<subseteq> S) = (set xs \<subseteq> S')"
  using assms by auto

lemma toUpperCase_ascii_in_grammar:
  assumes "list_all is_ascii raw"
  shows "(1 \<le> length (toUpperCase env raw) \<and> length (toUpperCase env raw) \<le> 10
          \<and> set (toUpperCase env raw) \<subseteq> set ''ABCDEFGHIJKLMNOPQRSTUVWXYZ0123456789.-'')
       = (1 \<le> length raw \<and> length raw \<le> 10
          \<and> set raw
              \<subseteq> set ''ABCDEFGHIJKLMNOPQRSTUVWXYZabcdefghijklmnopqrstuvwxyz0123456789.-'')"
proof -
  have up: "toUpperCase env raw = map upper_char raw"
    using assms by (simp add: toUpperCase_def)
  have cls: "(set (map upper_char raw) \<subseteq> set ''ABCDEFGHIJKLMNOPQRSTUVWXYZ0123456789.-'')
      = (set raw
           \<subseteq> set ''ABCDEFGHIJKLMNOPQRSTUVWXYZabcdefghijklmnopqrstuvwxyz0123456789.-'')"
    by (rule map_subset_iff) (rule upper_char_in_class)
  have len: "length (map upper_char raw) = length raw"
    by (rule length_map)
  show ?thesis unfolding up cls len by (rule refl)
qed

lemma miss_events_shape:
  "\<exists>rest. fst (fetch_and_assemble env t) = Call_Historical t # rest \<and> Call_News t \<in> set rest"
proof -
  have "\<exists>hs. fst (getHistoricalData env t) = Call_Historical t # hs"
    by (simp add: fst_getHistoricalData)
  then obtain hs where hs: "fst (getHistoricalData env t) = Call_Historical t # hs"
    by blast
  have "\<exists>ns. fst (getNewsData env t) = Call_News t # ns"
    by (simp add: fst_getNewsData)
  then obtain ns where ns: "fst (getNewsData env t) = Call_News t # ns"
    by blast
  show ?thesis
    unfolding fst_fetch_and_assemble hs ns by simp
qed

lemma serve_ticker_miss_ok_iff:
  assumes "\<not> cache_hit c t (Date_now env)"
  shows "(fst (serve_ticker env c t) = OK_200 r) =
           (\<exists>h n a. snd (getHistoricalData env t) = Inr h \<and> snd (getNewsData env t) = Inr n
              \<and> snd (getGeminiAnalysis env t h) = Inr a \<and> assemble env t h n a = Inr r)"
proof -
  have "(fst (serve_ticker env c t) = OK_200 r) = (snd (fetch_and_assemble env t) = Inr r)"
    by (cases "snd (fetch_and_assemble env t)") (simp_all add: serve_ticker_miss [OF assms])
  then show ?thesis by (simp add: fetch_and_assemble_Inr)
qed

lemma serve_ticker_miss_ok_cache:
  assumes "\<not> cache_hit c t (Date_now env)" and "fst (serve_ticker env c t) = OK_200 r"
  shows "ticker r = t
       \<and> fst (snd (serve_ticker env c t))
           = c(t \<mapsto> \<lparr>entry_timestamp = Date_now env, entry_data = r\<rparr>)"
proof -
  obtain h n a where r: "assemble env t h n a = Inr r"
    using serve_ticker_miss_ok_iff [OF assms(1), of r] assms(2) by blast
  then have "ticker r = t"
    using assemble_Inr by blast
  moreover have "snd (fetch_and_assemble env t) = Inr r"
    using assms(2)
    by (cases "snd (fetch_and_assemble env t)") (simp_all add: serve_ticker_miss [OF assms(1)])
  then have "fst (snd (serve_ticker env c t))
           = c(t \<mapsto> \<lparr>entry_timestamp = Date_now env, entry_data = r\<rparr>)"
    by (simp add: serve_ticker_miss [OF assms(1)])
  ultimately show ?thesis by simp
qed

lemma serve_ticker_miss_error:
  assumes "\<not> cache_hit c t (Date_now env)" and "fst (serve_ticker env c t) = Server_Error_500 e"
  shows "fst (snd (serve_ticker env c t)) = c"
  using assms(2)
  by (cases "snd (fetch_and_assemble env t)") (simp_all add: serve_ticker_miss [OF assms(1)])

subsection \<open>Validation\<close>

text \<open>
  Claim C2. Let \<open>u\<close> be the upper case of the raw string, and call the request accepted
  when \<open>u\<close> has between 1 and 10 characters, all of them among \<^verbatim>\<open>A\<close> to \<^verbatim>\<open>Z\<close>, \<^verbatim>\<open>0\<close> to
  \<^verbatim>\<open>9\<close>, \<^verbatim>\<open>.\<close> and \<^verbatim>\<open>-\<close>. The response is a 400 exactly when the request is not accepted,
  and then its body is \<^verbatim>\<open>{error: "Invalid ticker format."}\<close>, the cache is unchanged and
  there is no upstream event. An accepted request goes on with \<open>u\<close>: a fresh cache
  entry under \<open>u\<close> is returned; otherwise \<^verbatim>\<open>getHistoricalData\<close> and \<^verbatim>\<open>getNewsData\<close> are
  called with \<open>u\<close>, the response is a 200 with \<open>r\<close> exactly when the three clients,
  called with \<open>u\<close>, succeed and \<open>r\<close> is assembled from what they give, and then \<open>r\<close>
  carries \<open>u\<close> as its ticker and is cached under \<open>u\<close>; a 500 leaves the cache as it
  was. No cache key other than \<open>u\<close> changes and every client call is for \<open>u\<close>. For a
  raw string of ASCII characters, the request is accepted exactly when the raw string
  has between 1 and 10 characters, all of them letters of either case, digits, \<^verbatim>\<open>.\<close>
  or \<^verbatim>\<open>-\<close>.
\<close>

theorem ticker_validation_gates_the_pipeline:
  assumes "u = toUpperCase env raw"
    and "accepted = (1 \<le> length u \<and> length u \<le> 10
           \<and> set u \<subseteq> set ''ABCDEFGHIJKLMNOPQRSTUVWXYZ0123456789.-'')"
  shows "((\<exists>m. fst (market_pulse env c raw) = Bad_Request_400 m) = (\<not> accepted))
       \<and> (\<not> accepted \<longrightarrow>
            market_pulse env c raw = (Bad_Request_400 ''Invalid ticker format.'', c, []))
       \<and> (\<forall>e. accepted \<and> c u = Some e \<and> Date_now env - entry_timestamp e < 600000 \<longrightarrow>
            market_pulse env c raw = (OK_200 (entry_data e), c, []))
       \<and> (accepted \<and> \<not> (\<exists>e. c u = Some e \<and> Date_now env - entry_timestamp e < 600000) \<longrightarrow>
            (\<exists>rest. snd (snd (market_pulse env c raw)) = Call_Historical u # rest
                \<and> Call_News u \<in> set rest)
          \<and> (\<forall>r. (fst (market_pulse env c raw) = OK_200 r) =
                 (\<exists>h n a. snd (getHistoricalData env u) = Inr h
                    \<and> snd (getNewsData env u) = Inr n
                    \<and> snd (getGeminiAnalysis env u h) = Inr a
                    \<and> assemble env u h n a = Inr r))
          \<and> (\<forall>r. fst (market_pulse env c raw) = OK_200 r \<longrightarrow>
                 ticker r = u
               \<and> fst (snd (market_pulse env c raw))
                   = c(u \<mapsto> \<lparr>entry_timestamp = Date_now env, entry_data = r\<rparr>))
          \<and> (\<forall>e. fst (market_pulse env c raw) = Server_Error_500 e \<longrightarrow>
                 fst (snd (market_pulse env c raw)) = c))
       \<and> (accepted \<longrightarrow>
            (\<forall>k. k \<noteq> u \<longrightarrow> fst (snd (market_pulse env c raw)) k = c k)
          \<and> (\<forall>x. Call_Historical x \<in> set (snd (snd (market_pulse env c raw)))
                  \<or> Call_News x \<in> set (snd (snd (market_pulse env c raw)))
                  \<or> Call_Gemini x \<in> set (snd (snd (market_pulse env c raw)))
                \<longrightarrow> x = u))
       \<and> (list_all is_ascii raw \<longrightarrow>
            accepted = (1 \<le> length raw \<and> length raw \<le> 10
              \<and> set raw
                  \<subseteq> set ''ABCDEFGHIJKLMNOPQRSTUVWXYZabcdefghijklmnopqrstuvwxyz0123456789.-''))"
proof -
  have acc: "accepted = ticker_regex (toUpperCase env raw)"
    unfolding assms(2) assms(1) ticker_regex_iff by simp
  have rejected: "\<not> accepted \<Longrightarrow>
      market_pulse env c raw = (Bad_Request_400 ''Invalid ticker format.'', c, [])"
    unfolding acc by (rule market_pulse_invalid)
  have proceeds: "accepted \<Longrightarrow> market_pulse env c raw = serve_ticker env c u"
    unfolding acc assms(1) by (rule market_pulse_valid)
  have hit_iff: "cache_hit c u (Date_now env)
                   = (\<exists>e. c u = Some e \<and> Date_now env - entry_timestamp e < 600000)"
    by (rule cache_hit_iff)
  have p1: "(\<exists>m. fst (market_pulse env c raw) = Bad_Request_400 m) = (\<not> accepted)"
  proof (cases accepted)
    case True
    then show ?thesis using proceeds serve_ticker_not_400 by simp
  next
    case False
    then show ?thesis using rejected by simp
  qed
  have p2: "\<not> accepted \<longrightarrow>
            market_pulse env c raw = (Bad_Request_400 ''Invalid ticker format.'', c, [])"
    using rejected by blast
  have p3: "\<forall>e. accepted \<and> c u = Some e \<and> Date_now env - entry_timestamp e < 600000 \<longrightarrow>
            market_pulse env c raw = (OK_200 (entry_data e), c, [])"
  proof (intro allI impI)
    fix e
    assume a: "accepted \<and> c u = Some e \<and> Date_now env - entry_timestamp e < 600000"
    then have "cache_hit c u (Date_now env)" and "the (c u) = e"
      unfolding hit_iff by auto
    then have "serve_ticker env c u = (OK_200 (entry_data e), c, [])"
      by (simp add: serve_ticker_hit)
    then show "market_pulse env c raw = (OK_200 (entry_data e), c, [])"
      using a proceeds by simp
  qed
  have p4: "accepted \<and> \<not> (\<exists>e. c u = Some e \<and> Date_now env - entry_timestamp e < 600000) \<longrightarrow>
            (\<exists>rest. snd (snd (market_pulse env c raw)) = Call_Historical u # rest
                \<and> Call_News u \<in> set rest)
          \<and> (\<forall>r. (fst (market_pulse env c raw) = OK_200 r) =
                 (\<exists>h n a. snd (getHistoricalData env u) = Inr h
                    \<and> snd (getNewsData env u) = Inr n
                    \<and> snd (getGeminiAnalysis env u h) = Inr a
                    \<and> assemble env u h n a = Inr r))
          \<and> (\<forall>r. fst (market_pulse env c raw) = OK_200 r \<longrightarrow>
                 ticker r = u
               \<and> fst (snd (market_pulse env c raw))
                   = c(u \<mapsto> \<lparr>entry_timestamp = Date_now env, entry_data = r\<rparr>))
          \<and> (\<forall>e. fst (market_pulse env c raw) = Server_Error_500 e \<longrightarrow>
                 fst (snd (market_pulse env c raw)) = c)"
  proof (intro impI)
    assume a: "accepted \<and> \<not> (\<exists>e. c u = Some e \<and> Date_now env - entry_timestamp e < 600000)"
    then have miss: "\<not> cache_hit c u (Date_now env)"
      unfolding hit_iff by blast
    have mp: "market_pulse env c raw = serve_ticker env c u"
      using a proceeds by blast
    have "snd (snd (serve_ticker env c u)) = fst (fetch_and_assemble env u)"
      using miss by (rule miss_events)
    then have e1: "\<exists>rest. snd (snd (market_pulse env c raw)) = Call_Historical u # rest
                \<and> Call_News u \<in> set rest"
      unfolding mp using miss_events_shape [of env u] by simp
    have e2: "\<forall>r. (fst (market_pulse env c raw) = OK_200 r) =
                 (\<exists>h n a. snd (getHistoricalData env u) = Inr h
                    \<and> snd (getNewsData env u) = Inr n
                    \<and> snd (getGeminiAnalysis env u h) = Inr a
                    \<and> assemble env u h n a = Inr r)"
      unfolding mp using serve_ticker_miss_ok_iff [OF miss] by blast
    have e3: "\<forall>r. fst (market_pulse env c raw) = OK_200 r \<longrightarrow>
                 ticker r = u
               \<and> fst (snd (market_pulse env c raw))
                   = c(u \<mapsto> \<lparr>entry_timestamp = Date_now env, entry_data = r\<rparr>)"
      unfolding mp using serve_ticker_miss_ok_cache [OF miss] by blast
    have e4: "\<forall>e. fst (market_pulse env c raw) = Server_Error_500 e \<longrightarrow>
                 fst (snd (market_pulse env c raw)) = c"
      unfolding mp using serve_ticker_miss_error [OF miss] by blast
    show "(\<exists>rest. snd (snd (market_pulse env c raw)) = Call_Historical u # rest
                \<and> Call_News u \<in> set rest)
          \<and> (\<forall>r. (fst (market_pulse env c raw) = OK_200 r) =
                 (\<exists>h n a. snd (getHistoricalData env u) = Inr h
                    \<and> snd (getNewsData env u) = Inr n
                    \<and> snd (getGeminiAnalysis env u h) = Inr a
                    \<and> assemble env u h n a = Inr r))
          \<and> (\<forall>r. fst (market_pulse env c raw) = OK_200 r \<longrightarrow>
                 ticker r = u
               \<and> fst (snd (market_pulse env c raw))
                   = c(u \<mapsto> \<lparr>entry_timestamp = Date_now env, entry_data = r\<rparr>))
          \<and> (\<forall>e. fst (market_pulse env c raw) = Server_Error_500 e \<longrightarrow>
                 fst (snd (market_pulse env c raw)) = c)"
      using e1 e2 e3 e4 by (intro conjI)
  qed
  have p5: "accepted \<longrightarrow>
            (\<forall>k. k \<noteq> u \<longrightarrow> fst (snd (market_pulse env c raw)) k = c k)
          \<and> (\<forall>x. Call_Historical x \<in> set (snd (snd (market_pulse env c raw)))
                  \<or> Call_News x \<in> set (snd (snd (market_pulse env c raw)))
                  \<or> Call_Gemini x \<in> set (snd (snd (market_pulse env c raw)))
                \<longrightarrow> x = u)"
  proof (intro impI conjI allI)
    assume a: accepted
    have mp: "market_pulse env c raw = serve_ticker env c u"
      using a proceeds by blast
    show "\<And>k. k \<noteq> u \<Longrightarrow> fst (snd (market_pulse env c raw)) k = c k"
      unfolding mp by (rule serve_ticker_other_keys)
    show "\<And>x. Call_Historical x \<in> set (snd (snd (market_pulse env c raw)))
                  \<or> Call_News x \<in> set (snd (snd (market_pulse env c raw)))
                  \<or> Call_Gemini x \<in> set (snd (snd (market_pulse env c raw)))
           \<Longrightarrow> x = u"
      unfolding mp using serve_ticker_events [of env c u] by auto
  qed
  have p6: "list_all is_ascii raw \<longrightarrow>
            accepted = (1 \<le> length raw \<and> length raw \<le> 10
              \<and> set raw
                  \<subseteq> set ''ABCDEFGHIJKLMNOPQRSTUVWXYZabcdefghijklmnopqrstuvwxyz0123456789.-'')"
    unfolding assms(2) assms(1) using toUpperCase_ascii_in_grammar by blast
  show ?thesis
    using p1 p2 p3 p4 p5 p6 by (intro conjI)
qed

theorem ticker_validation_gates_the_pipeline_witness:
  "''AA PL'' = toUpperCase (demo_env (historical_payload [day_1, day_2]) (Resolved (Arr []))
        (gemini_payload bullish_text)) ''aa pl''
   \<and> market_pulse (demo_env (historical_payload [day_1, day_2]) (Resolved (Arr []))
        (gemini_payload bullish_text)) (cached 0) ''aa pl''
       = (Bad_Request_400 ''Invalid ticker format.'', cached 0, [])
   \<and> ''SS'' = toUpperCase (demo_env (historical_payload [day_1, day_2]) (Resolved (Arr []))
        (gemini_payload bullish_text)) sharp_s
   \<and> (\<exists>rest. snd (snd (market_pulse (demo_env (historical_payload [day_1, day_2])
          (Resolved (Arr [])) (gemini_payload bullish_text)) Map.empty sharp_s))
          = Call_Historical ''SS'' # rest
        \<and> Call_News ''SS'' \<in> set rest)
   \<and> ''AAPL'' = toUpperCase (demo_env (historical_payload [day_1, day_2]) (Resolved (Arr []))
        (gemini_payload bullish_text)) ''aapl''
   \<and> market_pulse (demo_env (historical_payload [day_1, day_2]) (Resolved (Arr []))
        (gemini_payload bullish_text)) (cached 0) ''aapl''
       = (OK_200 (demo_result (Arr [])), cached 0, [])"
proof -
  let ?E = "demo_env (historical_payload [day_1, day_2]) (Resolved (Arr []))
              (gemini_payload bullish_text)"
  have up_bad: "''AA PL'' = toUpperCase ?E ''aa pl''"
    by (simp add: toUpperCase_def upper_char_def is_ascii_def)
  have bad: "False = (1 \<le> length ''AA PL'' \<and> length ''AA PL'' \<le> 10
           \<and> set ''AA PL'' \<subseteq> set ''ABCDEFGHIJKLMNOPQRSTUVWXYZ0123456789.-'')"
    by simp
  have rejected: "market_pulse ?E (cached 0) ''aa pl''
       = (Bad_Request_400 ''Invalid ticker format.'', cached 0, [])"
    using ticker_validation_gates_the_pipeline [OF up_bad bad, where c = "cached 0",
        THEN conjunct2, THEN conjunct1]
    by simp
  have up_ss: "''SS'' = toUpperCase ?E sharp_s"
    by (simp add: toUpperCase_def is_ascii_def sharp_s_def demo_env_def
        demo_unicode_toUpperCase_def)
  have good_ss: "True = (1 \<le> length ''SS'' \<and> length ''SS'' \<le> 10
           \<and> set ''SS'' \<subseteq> set ''ABCDEFGHIJKLMNOPQRSTUVWXYZ0123456789.-'')"
    by simp
  have miss: "True \<and> \<not> (\<exists>e. Map.empty ''SS'' = Some e
                 \<and> Date_now ?E - entry_timestamp e < 600000)"
    by simp
  have fetched: "\<exists>rest. snd (snd (market_pulse ?E Map.empty sharp_s))
          = Call_Historical ''SS'' # rest \<and> Call_News ''SS'' \<in> set rest"
    by (rule ticker_validation_gates_the_pipeline [OF up_ss good_ss, where c = Map.empty,
          THEN conjunct2, THEN conjunct2, THEN conjunct2, THEN conjunct1, THEN mp, OF miss,
          THEN conjunct1])
  have up_aapl: "''AAPL'' = toUpperCase ?E ''aapl''"
    by (simp add: toUpperCase_def upper_char_def is_ascii_def)
  have good_aapl: "True = (1 \<le> length ''AAPL'' \<and> length ''AAPL'' \<le> 10
           \<and> set ''AAPL'' \<subseteq> set ''ABCDEFGHIJKLMNOPQRSTUVWXYZ0123456789.-'')"
    by simp
  have fresh: "True \<and> cached 0 ''AAPL''
                 = Some \<lparr>entry_timestamp = 1714750000000, entry_data = demo_result (Arr [])\<rparr>
               \<and> Date_now ?E
                   - entry_timestamp
                       \<lparr>entry_timestamp = 1714750000000, entry_data = demo_result (Arr [])\<rparr>
                   < 600000"
    by (simp add: cached_def demo_env_def)
  have "market_pulse ?E (cached 0) ''aapl''
       = (OK_200 (entry_data
            \<lparr>entry_timestamp = 1714750000000, entry_data = demo_result (Arr [])\<rparr>),
          cached 0, [])"
    by (rule ticker_validation_gates_the_pipeline [OF up_aapl good_aapl, where c = "cached 0",
          THEN conjunct2, THEN conjunct2, THEN conjunct1, THEN spec, THEN mp, OF fresh])
  then have hit: "market_pulse ?E (cached 0) ''aapl''
       = (OK_200 (demo_result (Arr [])), cached 0, [])"
    by simp
  show ?thesis
    using up_bad rejected up_ss fetched up_aapl hit by (intro conjI)
qed

lemma getGeminiAnalysis_configured:
  assumes "configured (GEMINI_API_KEY env)" and "recentData h = Inr rd"
  shows "snd (getGeminiAnalysis env t h)
           = (case gemini_try env
                     (axios_post env (gemini_url (the (GEMINI_API_KEY env))) (Prompt t rd)) of
                Inl e \<Rightarrow> Inl (gemini_catch e)
              | Inr a \<Rightarrow> Inr a)"
  using assms by (simp add: getGeminiAnalysis_def Let_def)

lemma no_candidates_not_usable:
  assumes "member d ''candidates'' = Inr cands" and "\<not> truthy cands \<or> cands = Arr []"
  shows "usable_candidates env d = Inr False"
  using assms by (auto simp add: usable_candidates_def)

lemma gemini_try_modes:
  "(\<forall>m x. out = Rejected m x \<longrightarrow> gemini_try env out = Inl (Axios_Error m x))
   \<and> (\<forall>d. out = Resolved d \<and> usable_candidates env d = Inr False \<longrightarrow>
          gemini_try env out = Inl (Error ''Invalid response structure from Gemini API.''))
   \<and> (\<forall>d tx. out = Resolved d \<and> usable_candidates env d = Inr True
          \<and> candidate_text d = Inr tx \<and> JSON_parse env tx = None \<longrightarrow>
          gemini_try env out = Inl SyntaxError)
   \<and> (\<forall>d tx a. out = Resolved d \<and> usable_candidates env d = Inr True
          \<and> candidate_text d = Inr tx \<and> JSON_parse env tx = Some a \<longrightarrow>
          gemini_try env out = Inr a)"
  by (cases out) (simp_all add: gemini_try_def)

subsection \<open>Failure of the sentiment analysis\<close>

text \<open>
  Claim C5, as amended. On a request that passes the validation, misses the cache and
  has obtained the historical data \<open>h\<close>: whenever \<^verbatim>\<open>getGeminiAnalysis\<close> fails with \<open>e\<close>,
  the response is the 500 made from \<open>e\<close> (never a result, complete or partial) and
  the cache is left as it was. The step fails in every case but one: the Gemini key
  is set, the recent data could be built, the service answered, the answer has a
  usable candidate, and \<^verbatim>\<open>JSON.parse\<close> accepts the candidate's text. So, with the key
  set and the recent data built, the step fails when the post is rejected, when the
  answer has falsy \<^verbatim>\<open>candidates\<close> or an empty list of them, and when \<^verbatim>\<open>JSON.parse\<close> rejects
  the text. A text that \<^verbatim>\<open>JSON.parse\<close> accepts is not a failure, whatever the shape of
  the value \<open>a\<close> it gives: the step returns \<open>a\<close>, and the request is answered with
  the 200 of the result assembled from \<open>a\<close> when that can be assembled.
\<close>

theorem sentiment_failure_is_fatal:
  assumes "ticker_regex t" and "t = toUpperCase env raw" and "\<not> cache_hit c t (Date_now env)"
    and "snd (getHistoricalData env t) = Inr h"
  shows "(snd (getGeminiAnalysis env t h) = Inl e \<longrightarrow>
            market_pulse env c raw
              = (Server_Error_500 e, c,
                 fst (getHistoricalData env t) @ fst (getNewsData env t)
                   @ fst (getGeminiAnalysis env t h)))
       \<and> ((\<exists>e'. snd (getGeminiAnalysis env t h) = Inl e') =
            (\<not> (configured (GEMINI_API_KEY env)
                \<and> (\<exists>rd d txt a. recentData h = Inr rd
                      \<and> axios_post env (gemini_url (the (GEMINI_API_KEY env))) (Prompt t rd)
                          = Resolved d
                      \<and> usable_candidates env d = Inr True
                      \<and> candidate_text d = Inr txt \<and> JSON_parse env txt = Some a))))
       \<and> (configured (GEMINI_API_KEY env) \<and> recentData h = Inr rd \<longrightarrow>
            (\<forall>m x. axios_post env (gemini_url (the (GEMINI_API_KEY env))) (Prompt t rd)
                      = Rejected m x \<longrightarrow>
               snd (getGeminiAnalysis env t h) = Inl (gemini_catch (Axios_Error m x)))
          \<and> (\<forall>m. axios_post env (gemini_url (the (GEMINI_API_KEY env))) (Prompt t rd)
                      = Rejected m None \<longrightarrow>
               snd (getGeminiAnalysis env t h)
                 = Inl (Error ''Failed to get analysis from Gemini API.''))
          \<and> (\<forall>d. axios_post env (gemini_url (the (GEMINI_API_KEY env))) (Prompt t rd)
                      = Resolved d
                    \<and> (\<exists>cands. member d ''candidates'' = Inr cands
                          \<and> (\<not> truthy cands \<or> cands = Arr [])) \<longrightarrow>
               snd (getGeminiAnalysis env t h)
                 = Inl (Error ''Failed to get analysis from Gemini API.''))
          \<and> (\<forall>d tx. axios_post env (gemini_url (the (GEMINI_API_KEY env))) (Prompt t rd)
                      = Resolved d
                    \<and> usable_candidates env d = Inr True \<and> candidate_text d = Inr tx
                    \<and> JSON_parse env tx = None \<longrightarrow>
               snd (getGeminiAnalysis env t h)
                 = Inl (Error ''Failed to get analysis from Gemini API.''))
          \<and> (\<forall>d tx a. axios_post env (gemini_url (the (GEMINI_API_KEY env))) (Prompt t rd)
                      = Resolved d
                    \<and> usable_candidates env d = Inr True \<and> candidate_text d = Inr tx
                    \<and> JSON_parse env tx = Some a \<longrightarrow>
               snd (getGeminiAnalysis env t h) = Inr a))
       \<and> (\<forall>a n r. snd (getGeminiAnalysis env t h) = Inr a \<and> snd (getNewsData env t) = Inr n
              \<and> assemble env t h n a = Inr r \<longrightarrow>
            fst (market_pulse env c raw) = OK_200 r)"
proof -
  have mp: "market_pulse env c raw = serve_ticker env c t"
    using assms(1,2) by (simp add: market_pulse_valid)
  have p1: "snd (getGeminiAnalysis env t h) = Inl e \<longrightarrow>
            market_pulse env c raw
              = (Server_Error_500 e, c,
                 fst (getHistoricalData env t) @ fst (getNewsData env t)
                   @ fst (getGeminiAnalysis env t h))"
  proof
    assume fails: "snd (getGeminiAnalysis env t h) = Inl e"
    show "market_pulse env c raw
              = (Server_Error_500 e, c,
                 fst (getHistoricalData env t) @ fst (getNewsData env t)
                   @ fst (getGeminiAnalysis env t h))"
      unfolding mp
      by (simp add: serve_ticker_miss [OF assms(3)] fetch_gemini_fails [OF assms(4) fails])
  qed
  have p2: "(\<exists>e'. snd (getGeminiAnalysis env t h) = Inl e') =
            (\<not> (configured (GEMINI_API_KEY env)
                \<and> (\<exists>rd d txt a. recentData h = Inr rd
                      \<and> axios_post env (gemini_url (the (GEMINI_API_KEY env))) (Prompt t rd)
                          = Resolved d
                      \<and> usable_candidates env d = Inr True
                      \<and> candidate_text d = Inr txt \<and> JSON_parse env txt = Some a)))"
    unfolding sum_fails_iff getGeminiAnalysis_Inr_iff by blast
  have p3: "configured (GEMINI_API_KEY env) \<and> recentData h = Inr rd \<longrightarrow>
            (\<forall>m x. axios_post env (gemini_url (the (GEMINI_API_KEY env))) (Prompt t rd)
                      = Rejected m x \<longrightarrow>
               snd (getGeminiAnalysis env t h) = Inl (gemini_catch (Axios_Error m x)))
          \<and> (\<forall>m. axios_post env (gemini_url (the (GEMINI_API_KEY env))) (Prompt t rd)
                      = Rejected m None \<longrightarrow>
               snd (getGeminiAnalysis env t h)
                 = Inl (Error ''Failed to get analysis from Gemini API.''))
          \<and> (\<forall>d. axios_post env (gemini_url (the (GEMINI_API_KEY env))) (Prompt t rd)
                      = Resolved d
                    \<and> (\<exists>cands. member d ''candidates'' = Inr cands
                          \<and> (\<not> truthy cands \<or> cands = Arr [])) \<longrightarrow>
               snd (getGeminiAnalysis env t h)
                 = Inl (Error ''Failed to get analysis from Gemini API.''))
          \<and> (\<forall>d tx. axios_post env (gemini_url (the (GEMINI_API_KEY env))) (Prompt t rd)
                      = Resolved d
                    \<and> usable_candidates env d = Inr True \<and> candidate_text d = Inr tx
                    \<and> JSON_parse env tx = None \<longrightarrow>
               snd (getGeminiAnalysis env t h)
                 = Inl (Error ''Failed to get analysis from Gemini API.''))
          \<and> (\<forall>d tx a. axios_post env (gemini_url (the (GEMINI_API_KEY env))) (Prompt t rd)
                      = Resolved d
                    \<and> usable_candidates env d = Inr True \<and> candidate_text d = Inr tx
                    \<and> JSON_parse env tx = Some a \<longrightarrow>
               snd (getGeminiAnalysis env t h) = Inr a)"
  proof (intro impI)
    assume pre: "configured (GEMINI_API_KEY env) \<and> recentData h = Inr rd"
    let ?out = "axios_post env (gemini_url (the (GEMINI_API_KEY env))) (Prompt t rd)"
    have g: "snd (getGeminiAnalysis env t h)
           = (case gemini_try env ?out of Inl e \<Rightarrow> Inl (gemini_catch e) | Inr a \<Rightarrow> Inr a)"
      using pre getGeminiAnalysis_configured by blast
    have m1: "\<forall>m x. ?out = Rejected m x \<longrightarrow>
               snd (getGeminiAnalysis env t h) = Inl (gemini_catch (Axios_Error m x))"
      unfolding g by (simp add: gemini_try_def)
    have m2: "\<forall>m. ?out = Rejected m None \<longrightarrow>
               snd (getGeminiAnalysis env t h)
                 = Inl (Error ''Failed to get analysis from Gemini API.'')"
      unfolding g by (simp add: gemini_try_def gemini_failed_def)
    have m3: "\<forall>d. ?out = Resolved d
                    \<and> (\<exists>cands. member d ''candidates'' = Inr cands
                          \<and> (\<not> truthy cands \<or> cands = Arr [])) \<longrightarrow>
               snd (getGeminiAnalysis env t h)
                 = Inl (Error ''Failed to get analysis from Gemini API.'')"
    proof (intro allI impI)
      fix d
      assume a: "?out = Resolved d
                    \<and> (\<exists>cands. member d ''candidates'' = Inr cands
                          \<and> (\<not> truthy cands \<or> cands = Arr []))"
      then have "usable_candidates env d = Inr False"
        using no_candidates_not_usable by blast
      then have "gemini_try env ?out = Inl (Error ''Invalid response structure from Gemini API.'')"
        using a gemini_try_modes by blast
      then show "snd (getGeminiAnalysis env t h)
                 = Inl (Error ''Failed to get analysis from Gemini API.'')"
        unfolding g by (simp add: gemini_failed_def)
    qed
    have m4: "\<forall>d tx. ?out = Resolved d
                    \<and> usable_candidates env d = Inr True \<and> candidate_text d = Inr tx
                    \<and> JSON_parse env tx = None \<longrightarrow>
               snd (getGeminiAnalysis env t h)
                 = Inl (Error ''Failed to get analysis from Gemini API.'')"
    proof (intro allI impI)
      fix d tx
      assume a: "?out = Resolved d
                    \<and> usable_candidates env d = Inr True \<and> candidate_text d = Inr tx
                    \<and> JSON_parse env tx = None"
      then have "gemini_try env ?out = Inl SyntaxError"
        using gemini_try_modes by blast
      then show "snd (getGeminiAnalysis env t h)
                 = Inl (Error ''Failed to get analysis from Gemini API.'')"
        unfolding g by (simp add: gemini_failed_def)
    qed
    have m5: "\<forall>d tx a. ?out = Resolved d
                    \<and> usable_candidates env d = Inr True \<and> candidate_text d = Inr tx
                    \<and> JSON_parse env tx = Some a \<longrightarrow>
               snd (getGeminiAnalysis env t h) = Inr a"
    proof (intro allI impI)
      fix d tx a
      assume a: "?out = Resolved d
                    \<and> usable_candidates env d = Inr True \<and> candidate_text d = Inr tx
                    \<and> JSON_parse env tx = Some a"
      then have "gemini_try env ?out = Inr a"
        using gemini_try_modes by blast
      then show "snd (getGeminiAnalysis env t h) = Inr a"
        unfolding g by simp
    qed
    show "(\<forall>m x. ?out = Rejected m x \<longrightarrow>
               snd (getGeminiAnalysis env t h) = Inl (gemini_catch (Axios_Error m x)))
          \<and> (\<forall>m. ?out = Rejected m None \<longrightarrow>
               snd (getGeminiAnalysis env t h)
                 = Inl (Error ''Failed to get analysis from Gemini API.''))
          \<and> (\<forall>d. ?out = Resolved d
                    \<and> (\<exists>cands. member d ''candidates'' = Inr cands
                          \<and> (\<not> truthy cands \<or> cands = Arr [])) \<longrightarrow>
               snd (getGeminiAnalysis env t h)
                 = Inl (Error ''Failed to get analysis from Gemini API.''))
          \<and> (\<forall>d tx. ?out = Resolved d
                    \<and> usable_candidates env d = Inr True \<and> candidate_text d = Inr tx
                    \<and> JSON_parse env tx = None \<longrightarrow>
               snd (getGeminiAnalysis env t h)
                 = Inl (Error ''Failed to get analysis from Gemini API.''))
          \<and> (\<forall>d tx a. ?out = Resolved d
                    \<and> usable_candidates env d = Inr True \<and> candidate_text d = Inr tx
                    \<and> JSON_parse env tx = Some a \<longrightarrow>
               snd (getGeminiAnalysis env t h) = Inr a)"
      using m1 m2 m3 m4 m5 by (intro conjI)
  qed
  have p4: "\<forall>a n r. snd (getGeminiAnalysis env t h) = Inr a \<and> snd (getNewsData env t) = Inr n
              \<and> assemble env t h n a = Inr r \<longrightarrow>
            fst (market_pulse env c raw) = OK_200 r"
  proof (intro allI impI)
    fix a n r
    assume a: "snd (getGeminiAnalysis env t h) = Inr a \<and> snd (getNewsData env t) = Inr n
              \<and> assemble env t h n a = Inr r"
    then have "snd (fetch_and_assemble env t) = Inr r"
      using assms(4) unfolding fetch_and_assemble_Inr by blast
    then show "fst (market_pulse env c raw) = OK_200 r"
      unfolding mp by (simp add: serve_ticker_miss [OF assms(3)])
  qed
  show ?thesis
    using p1 p2 p3 p4 by (intro conjI)
qed

theorem sentiment_failure_is_fatal_witness:
  "ticker_regex ''AAPL'' \<and> ''AAPL''
       = toUpperCase (demo_env (historical_payload [day_1, day_2]) (Resolved
             (Arr [headline ''Apple'']))
             (gemini_payload ''The outlook is bullish.'')) ''aapl''
   \<and> \<not> cache_hit (cached 600000) ''AAPL''
         (Date_now (demo_env (historical_payload [day_1, day_2]) (Resolved (Arr [headline ''Apple'']))
            (gemini_payload ''The outlook is bullish.'')))
   \<and> snd (getHistoricalData (demo_env (historical_payload [day_1, day_2])
            (Resolved (Arr [headline ''Apple''])) (gemini_payload ''The outlook is bullish.'')) ''AAPL'')
       = Inr (Arr [day_1, day_2])
   \<and> snd (getGeminiAnalysis (demo_env (historical_payload [day_1, day_2])
            (Resolved (Arr [headline ''Apple''])) (gemini_payload ''The outlook is bullish.'')) ''AAPL''
            (Arr [day_1, day_2]))
       = Inl (Error ''Failed to get analysis from Gemini API.'')
   \<and> market_pulse (demo_env (historical_payload [day_1, day_2]) (Resolved (Arr [headline ''Apple'']))
        (gemini_payload ''The outlook is bullish.'')) (cached 600000) ''aapl''
       = (Server_Error_500 (Error ''Failed to get analysis from Gemini API.''), cached 600000,
          [Call_Historical ''AAPL'', Http_Get (historical_url ''AAPL'' ''fmp-key''),
           Call_News ''AAPL'', Http_Get (news_url ''AAPL'' ''fmp-key''),
           Call_Gemini ''AAPL'', Http_Post (gemini_url ''gemini-key'')])"
proof -
  let ?E = "demo_env (historical_payload [day_1, day_2]) (Resolved (Arr [headline ''Apple'']))
              (gemini_payload ''The outlook is bullish.'')"
  have v: "ticker_regex ''AAPL''"
    by (simp add: ticker_regex_def ticker_char_def)
  have u: "''AAPL'' = toUpperCase ?E ''aapl''"
    by (simp add: toUpperCase_def upper_char_def is_ascii_def)
  have miss: "\<not> cache_hit (cached 600000) ''AAPL'' (Date_now ?E)"
    by (simp add: cache_hit_def cached_def demo_env_def)
  have hist: "snd (getHistoricalData ?E ''AAPL'') = Inr (Arr [day_1, day_2])"
    by (simp add: getHistoricalData_def historical_of_outcome_def historical_payload_def
        demo_env_def news_url_def historical_url_def)
  have fails: "snd (getGeminiAnalysis ?E ''AAPL'' (Arr [day_1, day_2]))
                 = Inl (Error ''Failed to get analysis from Gemini API.'')"
    by (simp add: getGeminiAnalysis_def gemini_try_def usable_candidates_def candidate_text_def
        gemini_failed_def day_tuple_def day_1_def day_2_def gemini_payload_def demo_env_def
        demo_JSON_parse_def bullish_text_def sideways_text_def)
  have evs: "fst (getHistoricalData ?E ''AAPL'') @ fst (getNewsData ?E ''AAPL'')
               @ fst (getGeminiAnalysis ?E ''AAPL'' (Arr [day_1, day_2]))
               = [Call_Historical ''AAPL'', Http_Get (historical_url ''AAPL'' ''fmp-key''),
                  Call_News ''AAPL'', Http_Get (news_url ''AAPL'' ''fmp-key''),
                  Call_Gemini ''AAPL'', Http_Post (gemini_url ''gemini-key'')]"
    by (simp add: fst_getHistoricalData fst_getNewsData getGeminiAnalysis_def day_tuple_def
        day_1_def day_2_def demo_env_def)
  have "market_pulse ?E (cached 600000) ''aapl''
          = (Server_Error_500 (Error ''Failed to get analysis from Gemini API.''),
             cached 600000,
             fst (getHistoricalData ?E ''AAPL'') @ fst (getNewsData ?E ''AAPL'')
               @ fst (getGeminiAnalysis ?E ''AAPL'' (Arr [day_1, day_2])))"
    by (rule sentiment_failure_is_fatal [OF v u miss hist, THEN conjunct1, THEN mp, OF fails])
  then have answer: "market_pulse ?E (cached 600000) ''aapl''
       = (Server_Error_500 (Error ''Failed to get analysis from Gemini API.''), cached 600000,
          [Call_Historical ''AAPL'', Http_Get (historical_url ''AAPL'' ''fmp-key''),
           Call_News ''AAPL'', Http_Get (news_url ''AAPL'' ''fmp-key''),
           Call_Gemini ''AAPL'', Http_Post (gemini_url ''gemini-key'')])"
    unfolding evs .
  show ?thesis
    using v u miss hist fails answer by (intro conjI)
qed

text \<open>
  Claim C5 as stated fails on a text that is JSON of another shape than the expected
  one: when the text of the service is \<^verbatim>\<open>{}\<close>, the sentiment step returns the empty
  object, the response is a 200 whose \<^verbatim>\<open>pulse\<close>, \<^verbatim>\<open>reason\<close> and \<^verbatim>\<open>confidence\<close> are
  \<^verbatim>\<open>undefined\<close>, and the cache entry of the ticker is replaced by that result.
\<close>

theorem unexpected_json_shape_counterexample:
  "snd (getGeminiAnalysis (demo_env (historical_payload [day_1, day_2]) (Resolved (Arr []))
          (gemini_payload ''{}'')) ''AAPL'' (Arr [day_1, day_2]))
     = Inr (Obj [])
   \<and> market_pulse (demo_env (historical_payload [day_1, day_2]) (Resolved (Arr []))
          (gemini_payload ''{}'')) (cached 600000) ''aapl''
     = (OK_200 bare_result,
        (cached 600000)
          (''AAPL'' \<mapsto> \<lparr>entry_timestamp = 1714750000000, entry_data = bare_result\<rparr>),
        [Call_Historical ''AAPL'', Http_Get (historical_url ''AAPL'' ''fmp-key''),
         Call_News ''AAPL'', Http_Get (news_url ''AAPL'' ''fmp-key''),
         Call_Gemini ''AAPL'', Http_Post (gemini_url ''gemini-key'')])
   \<and> pulse bare_result = Undefined \<and> reason bare_result = Undefined
   \<and> confidence bare_result = Undefined"
  by (simp add: handler_defs demo_defs)

subsection \<open>The news client without the FMP key\<close>




end
